theory Spec2Isabelle
  imports Main "HOL-Library.Sublist"
begin

section \<open>Strings and optional values as JavaScript sees them\<close>

text \<open>
  Strings are lists of characters. A property that may be \<^verbatim>\<open>undefined\<close> is an
  \<open>option\<close>. JavaScript's truthiness decides every \<^verbatim>\<open>if (x)\<close>, \<^verbatim>\<open>x || d\<close> and
  \<^verbatim>\<open>x ? a : b\<close> of the generators: an absent value and the empty string are both falsy,
  an absent flag and \<^verbatim>\<open>false\<close> are both falsy.
\<close>

definition truthy :: "string option \<Rightarrow> bool" where
  "truthy v = (case v of None \<Rightarrow> False | Some s \<Rightarrow> s \<noteq> [])"

definition enabled :: "bool option \<Rightarrow> bool" where
  "enabled v = (case v of None \<Rightarrow> False | Some b \<Rightarrow> b)"

text \<open>\<^verbatim>\<open>x || d\<close> on an optional string with a string default.\<close>

definition orElse :: "string option \<Rightarrow> string \<Rightarrow> string" where
  "orElse v d = (case v of None \<Rightarrow> d | Some s \<Rightarrow> if s = [] then d else s)"

text \<open>\<^verbatim>\<open>x || undefined\<close> on a string.\<close>

definition orUndefined :: "string \<Rightarrow> string option" where
  "orUndefined s = (if s = [] then None else Some s)"

definition nl :: string where
  "nl = [CHR 0x0A]"

definition apos :: string where
  "apos = [CHR 0x27]"

text \<open>\<^verbatim>\<open>Array.prototype.join\<close>.\<close>

fun join :: "string \<Rightarrow> string list \<Rightarrow> string" where
  "join sep [] = []"
| "join sep [x] = x"
| "join sep (x # y # ys) = x @ sep @ join sep (y # ys)"

text \<open>\<^verbatim>\<open>String.prototype.includes\<close>, which is also what the tests' \<^verbatim>\<open>toContain\<close> checks.\<close>

fun includesStr :: "string \<Rightarrow> string \<Rightarrow> bool" where
  "includesStr [] t = (t = [])"
| "includesStr (c # cs) t = (prefix t (c # cs) \<or> includesStr cs t)"

section \<open>The project configuration\<close>

datatype language = typescript | javascript

datatype moduleType = esm | commonjs | dual

datatype testRunner = vitest | jest | none

datatype packageManager = npm | pnpm | yarn | bun

text \<open>The interface \<^verbatim>\<open>ProjectConfig\<close> of \<^verbatim>\<open>types.ts\<close>; its optional members are options.\<close>

record ProjectConfig =
  packageName :: string
  language :: language
  moduleType :: moduleType
  testRunner :: testRunner
  useLinting :: bool
  initGit :: bool
  setupCI :: "bool option"
  setupCD :: "bool option"
  useCodecov :: "bool option"
  useDependabot :: "bool option"
  packageManager :: "packageManager option"
  description :: "string option"
  author :: "string option"
  authorEmail :: "string option"
  githubUsername :: "string option"

section \<open>The manifest generator (\<^verbatim>\<open>packageJson.ts\<close>)\<close>

text \<open>
  A manifest is a JavaScript object; its properties keep the order in which they were
  first assigned, which is the order \<^verbatim>\<open>JSON.stringify\<close> writes them in.
\<close>

datatype json = JString string | JArray "json list" | JObject "(string \<times> json) list"

text \<open>\<^verbatim>\<open>obj[k] = v\<close>: replaces the value of an existing key, appends a new one.\<close>

fun assign :: "('k \<times> 'v) list \<Rightarrow> 'k \<Rightarrow> 'v \<Rightarrow> ('k \<times> 'v) list" where
  "assign [] k v = [(k, v)]"
| "assign ((k', v') # ps) k v = (if k' = k then (k, v) # ps else (k', v') # assign ps k v)"

text \<open>\<^verbatim>\<open>obj[k]\<close>, with \<open>None\<close> for \<^verbatim>\<open>undefined\<close>.\<close>

definition getProp :: "('k \<times> 'v) list \<Rightarrow> 'k \<Rightarrow> 'v option" where
  "getProp obj k = map_of obj k"

text \<open>The local \<^verbatim>\<open>authorField\<close> of \<^verbatim>\<open>generatePackageJson\<close>.\<close>

definition authorField :: "ProjectConfig \<Rightarrow> string" where
  "authorField config =
     (let authorField = [] in
      if truthy (author config) then
        let authorField = the (author config);
            authorField = (if truthy (authorEmail config)
                           then authorField @ '' <'' @ the (authorEmail config) @ ''>''
                           else authorField);
            authorField = (if truthy (githubUsername config)
                           then authorField @ '' (https://github.com/''
                                @ the (githubUsername config) @ '')''
                           else authorField)
        in authorField
      else authorField)"

definition generateFilesList :: "ProjectConfig \<Rightarrow> string list" where
  "generateFilesList config =
     (if language config = javascript then [''src'']
      else
        let files = [''dist'', ''index.js'', ''index.d.ts''];
            files = (if moduleType config = dual then files @ [''index.mjs''] else files)
        in files)"

definition generateEntryPoints :: "ProjectConfig \<Rightarrow> (string \<times> json) list" where
  "generateEntryPoints config =
     (let isTypeScript = (language config = typescript);
          entryPoints = []
      in
      if \<not> isTypeScript then
        let entryPoints = assign entryPoints ''main'' (JString ''./src/index.js'');
            entryPoints = (if moduleType config = esm \<or> moduleType config = dual
                           then assign entryPoints ''module'' (JString ''./src/index.js'')
                           else entryPoints);
            entryPoints = assign entryPoints ''exports''
                            (JObject [(''.'', JString ''./src/index.js'')])
        in entryPoints
      else
        (case moduleType config of
           esm \<Rightarrow>
             let entryPoints = assign entryPoints ''main'' (JString ''./index.js'');
                 entryPoints = assign entryPoints ''types'' (JString ''./index.d.ts'');
                 entryPoints = assign entryPoints ''exports''
                   (JObject [(''.'', JObject [(''types'', JString ''./index.d.ts''),
                                             (''import'', JString ''./index.js'')])])
             in entryPoints
         | commonjs \<Rightarrow>
             let entryPoints = assign entryPoints ''main'' (JString ''./index.js'');
                 entryPoints = assign entryPoints ''types'' (JString ''./index.d.ts'');
                 entryPoints = assign entryPoints ''exports''
                   (JObject [(''.'', JObject [(''types'', JString ''./index.d.ts''),
                                             (''require'', JString ''./index.js'')])])
             in entryPoints
         | dual \<Rightarrow>
             let entryPoints = assign entryPoints ''main'' (JString ''./index.js'');
                 entryPoints = assign entryPoints ''module'' (JString ''./index.mjs'');
                 entryPoints = assign entryPoints ''types'' (JString ''./index.d.ts'');
                 entryPoints = assign entryPoints ''exports''
                   (JObject [(''.'', JObject [(''types'', JString ''./index.d.ts''),
                                             (''import'', JString ''./index.mjs''),
                                             (''require'', JString ''./index.js'')])])
             in entryPoints))"

text \<open>\<^verbatim>\<open>generateScripts\<close> as \<^verbatim>\<open>packageJson.ts\<close> has it.\<close>

definition generateScripts :: "ProjectConfig \<Rightarrow> (string \<times> string) list" where
  \<open>generateScripts config =
     (let scripts = [];
          scripts = (if language config = typescript
                     then assign (assign scripts ''build'' ''tsup'') ''typecheck'' ''tsc --noEmit''
                     else scripts);
          scripts = (if testRunner config = vitest
                     then assign (assign scripts ''test'' ''vitest run'') ''test:watch'' ''vitest''
                     else if testRunner config = jest
                     then assign (assign scripts ''test'' ''jest'') ''test:watch'' ''jest --watch''
                     else scripts);
          scripts = (if useLinting config then
                       let ext = (if language config = typescript then ''ts'' else ''js'');
                           scripts = assign scripts ''lint'' (''eslint . --ext .'' @ ext);
                           scripts = assign scripts ''lint:fix''
                                       (''eslint . --ext .'' @ ext @ '' --fix'');
                           scripts = assign scripts ''format''
                                       ''prettier --write "src/**/*.{ts,js,json,md}"'';
                           scripts = assign scripts ''format:check''
                                       ''prettier --check "src/**/*.{ts,js,json,md}"''
                       in scripts
                     else scripts);
          scripts = (if language config = typescript
                     then assign scripts ''check:exports'' ''attw --pack''
                     else scripts);
          scripts = (if language config = typescript
                     then assign scripts ''prepublishOnly'' ''npm run build''
                     else scripts)
      in scripts)\<close>

definition generateDevDependencies :: "ProjectConfig \<Rightarrow> (string \<times> string) list" where
  "generateDevDependencies config =
     (let deps = [];
          deps = (if language config = typescript then
                    let deps = assign deps ''typescript'' ''^5.3.3'';
                        deps = assign deps ''tsup'' ''^8.0.1'';
                        deps = assign deps ''@types/node'' ''^20.11.0'';
                        deps = assign deps ''@arethetypeswrong/cli'' ''^0.15.0''
                    in deps
                  else deps);
          deps = (if testRunner config = vitest then assign deps ''vitest'' ''^1.2.0''
                  else if testRunner config = jest then
                    let deps = assign deps ''jest'' ''^29.7.0'';
                        deps = (if language config = typescript
                                then assign (assign deps ''ts-jest'' ''^29.1.1'')
                                       ''@types/jest'' ''^29.5.11''
                                else deps)
                    in deps
                  else deps);
          deps = (if useLinting config then
                    let deps = (if language config = typescript
                                then assign (assign deps ''@typescript-eslint/eslint-plugin''
                                               ''^6.19.0'')
                                       ''@typescript-eslint/parser'' ''^6.19.0''
                                else deps);
                        deps = assign deps ''eslint'' ''^8.56.0'';
                        deps = assign deps ''prettier'' ''^3.2.4'';
                        deps = assign deps ''eslint-config-prettier'' ''^9.1.0''
                    in deps
                  else deps)
      in deps)"

definition strings :: "(string \<times> string) list \<Rightarrow> json" where
  "strings obj = JObject (map (\<lambda>(k, v). (k, JString v)) obj)"

definition generatePackageJson :: "ProjectConfig \<Rightarrow> (string \<times> json) list" where
  "generatePackageJson config =
     (let authorField = authorField config;
          pkg =
            [(''name'', JString (packageName config)),
             (''version'', JString ''0.1.0''),
             (''description'', JString (orElse (description config) ''A new npm package'')),
             (''type'', JString (if moduleType config = commonjs then ''commonjs''
                                 else ''module''))];
          pkg = foldl (\<lambda>obj (k, v). assign obj k v) pkg (generateEntryPoints config);
          pkg = assign pkg ''files'' (JArray (map JString (generateFilesList config)));
          pkg = assign pkg ''scripts'' (strings (generateScripts config));
          pkg = assign pkg ''keywords'' (JArray []);
          pkg = assign pkg ''author'' (JString authorField);
          pkg = assign pkg ''license'' (JString ''MIT'');
          pkg = assign pkg ''devDependencies'' (strings (generateDevDependencies config))
      in
      if truthy (githubUsername config) then
        let pkg = assign pkg ''repository''
                    (JObject [(''type'', JString ''git''),
                              (''url'', JString (''https://github.com/''
                                 @ the (githubUsername config) @ ''/'' @ packageName config
                                 @ ''.git''))]);
            pkg = assign pkg ''bugs''
                    (JObject [(''url'', JString (''https://github.com/''
                                 @ the (githubUsername config) @ ''/'' @ packageName config
                                 @ ''/issues''))]);
            pkg = assign pkg ''homepage''
                    (JString (''https://github.com/'' @ the (githubUsername config) @ ''/''
                       @ packageName config @ ''#readme''))
        in pkg
      else pkg)"

text \<open>
  \<^verbatim>\<open>generateScripts\<close> as the later revision of the manifest generator has it: the test
  runners gain a coverage script, and the dependency-sync and release scripts are added.
  (\<^verbatim>\<open>generateFilesList\<close> and \<^verbatim>\<open>generateEntryPoints\<close> are the same in both revisions.)
\<close>

definition generateScripts_rev :: "ProjectConfig \<Rightarrow> (string \<times> string) list" where
  \<open>generateScripts_rev config =
     (let scripts = [];
          scripts = (if language config = typescript
                     then assign (assign scripts ''build'' ''tsup'') ''typecheck'' ''tsc --noEmit''
                     else scripts);
          scripts = (if testRunner config = vitest then
                       let scripts = assign scripts ''test'' ''vitest run'';
                           scripts = assign scripts ''test:watch'' ''vitest'';
                           scripts = assign scripts ''test:coverage'' ''vitest run --coverage''
                       in scripts
                     else if testRunner config = jest then
                       let scripts = assign scripts ''test'' ''jest'';
                           scripts = assign scripts ''test:watch'' ''jest --watch'';
                           scripts = assign scripts ''test:coverage'' ''jest --coverage''
                       in scripts
                     else scripts);
          scripts = (if useLinting config then
                       let ext = (if language config = typescript then ''ts'' else ''js'');
                           scripts = assign scripts ''lint'' (''eslint . --ext .'' @ ext);
                           scripts = assign scripts ''lint:fix''
                                       (''eslint . --ext .'' @ ext @ '' --fix'');
                           scripts = assign scripts ''format''
                                       ''prettier --write "src/**/*.{ts,js,json,md}"'';
                           scripts = assign scripts ''format:check''
                                       ''prettier --check "src/**/*.{ts,js,json,md}"''
                       in scripts
                     else scripts);
          scripts = (if language config = typescript
                     then assign scripts ''check:exports'' ''attw --pack''
                     else scripts);
          scripts = (if language config = typescript
                     then assign scripts ''prepublishOnly'' ''npm run build''
                     else scripts);
          scripts = (if enabled (useDependabot config) then
                       assign (assign scripts ''sync''
                                 ''git pull --rebase && npm install && npm test'')
                         ''sync:quick'' ''git pull --rebase && npm install''
                     else scripts);
          scripts = (if enabled (setupCD config) then
                       assign (assign scripts ''preversion'' ''npm run build && npm test'')
                         ''release'' ''node scripts/release.mjs''
                     else scripts)
      in scripts)\<close>

section \<open>The workflow generators (\<^verbatim>\<open>workflows.ts\<close>)\<close>



definition generateCDWorkflow_steps :: "ProjectConfig \<Rightarrow> string list" where
  "generateCDWorkflow_steps config =
     (let steps =
            [join nl [''      - name: Checkout code'',
                      ''        uses: actions/checkout@v4''],
             join nl [''      - name: Setup Node.js'',
                      ''        uses: actions/setup-node@v4'',
                      ''        with:'',
                      ''          node-version: 20'',
                      ''          registry-url: '' @ apos @ ''https://registry.npmjs.org'' @ apos],
             join nl [''      - name: Install dependencies'',
                      ''        run: npm install'']];
          steps = (if language config = typescript
                   then steps @ [join nl [''      - name: Type check'',
                                          ''        run: npm run typecheck'']]
                   else steps);
          steps = (if testRunner config \<noteq> none
                   then steps @ [join nl [''      - name: Run tests'',
                                          ''        run: npm test'']]
                   else steps);
          steps = steps @ [join nl [''      - name: Build'',
                                    ''        run: npm run build'']];
          steps = steps @ [join nl [''      - name: Publish to npm'',
                                    ''        run: npm publish'',
                                    ''        env:'',
                                    ''          NODE_AUTH_TOKEN: ${{ secrets.NPM_TOKEN }}'']]
      in steps)"

definition generateCDWorkflow :: "ProjectConfig \<Rightarrow> string" where
  "generateCDWorkflow config =
     (let steps = generateCDWorkflow_steps config
      in join nl
           [''name: Publish'',
            [],
            ''on:'',
            ''  release:'',
            ''    types: [created]'',
            [],
            ''jobs:'',
            ''  publish:'',
            ''    runs-on: ubuntu-latest'',
            ''    steps:'',
            join (nl @ nl) steps,
            []])"

section \<open>The root index files (\<^verbatim>\<open>files.ts\<close>)\<close>

definition generateRootIndexJs :: "ProjectConfig \<Rightarrow> string" where
  "generateRootIndexJs config =
     (if moduleType config = commonjs \<or> moduleType config = dual then
        join nl
          [''/**'',
           '' * '' @ packageName config,
           '' *'',
           '' * @license MIT'',
           '' */'',
           [],
           apos @ ''use strict'' @ apos @ '';'',
           [],
           ''module.exports = require('' @ apos @ ''./dist/index.js'' @ apos @ '');'',
           ''module.exports.default = require('' @ apos @ ''./dist/index.js'' @ apos @ '').default;'',
           []]
      else
        join nl
          [''/**'',
           '' * '' @ packageName config,
           '' *'',
           '' * @license MIT'',
           '' */'',
           [],
           ''export * from '' @ apos @ ''./dist/index.js'' @ apos @ '';'',
           ''export { default } from '' @ apos @ ''./dist/index.js'' @ apos @ '';'',
           []])"

definition generateRootIndexMjs :: "ProjectConfig \<Rightarrow> string" where
  "generateRootIndexMjs config =
     join nl
       [''/**'',
        '' * '' @ packageName config,
        '' *'',
        '' * @license MIT'',
        '' */'',
        [],
        ''export * from '' @ apos @ ''./dist/index.mjs'' @ apos @ '';'',
        ''export { default } from '' @ apos @ ''./dist/index.mjs'' @ apos @ '';'',
        []]"

definition generateRootIndexDts :: "ProjectConfig \<Rightarrow> string" where
  "generateRootIndexDts config =
     (let typeReference = (if moduleType config = dual then ''./dist/index'' else ''./dist/index'')
      in join nl
           [''/**'',
            '' * '' @ packageName config @ '' - Type Definitions'',
            '' *'',
            '' * @license MIT'',
            '' */'',
            [],
            ''export * from '' @ apos @ typeReference @ apos @ '';'',
            ''export { default } from '' @ apos @ typeReference @ apos @ '';'',
            []])"

section \<open>The README generator (\<^verbatim>\<open>readme.ts\<close>)\<close>

definition languageName :: "language \<Rightarrow> string" where
  "languageName l = (case l of typescript \<Rightarrow> ''typescript'' | javascript \<Rightarrow> ''javascript'')"

text \<open>The local \<^verbatim>\<open>badges\<close> of \<^verbatim>\<open>generateReadme\<close>.\<close>

definition generateReadme_badges :: "ProjectConfig \<Rightarrow> string" where
  "generateReadme_badges config =
     (let packageName = (if packageName config = [] then ''<package-name>''
                         else packageName config);
          githubUsername = orElse (githubUsername config) ''<github-username>''
      in join nl
           [[],
            ''[![npm version](https://badge.fury.io/js/'' @ packageName
              @ ''.svg)](https://badge.fury.io/js/'' @ packageName @ '')'',
            ''![License](https://img.shields.io/npm/l/'' @ packageName @ '')'',
            ''![Types](https://img.shields.io/npm/types/'' @ packageName @ '')'',
            [],
            ''![NPM Downloads](https://img.shields.io/npm/dw/'' @ packageName @ '')'',
            ''![Last Commit](https://img.shields.io/github/last-commit/oharu121/''
              @ packageName @ '')'',
            (if enabled (useCodecov config) \<and> testRunner config \<noteq> none
             then join nl [''![Coverage](https://codecov.io/gh/'' @ githubUsername @ ''/''
                             @ packageName @ ''/branch/main/graph/badge.svg)'',
                           []]
             else [])
            @ (if enabled (setupCI config)
               then ''![CI Status](https://github.com/'' @ githubUsername @ ''/''
                      @ packageName @ ''/actions/workflows/ci.yml/badge.svg)''
               else []),
            ''![GitHub Stars](https://img.shields.io/github/stars/'' @ githubUsername @ ''/''
              @ packageName @ ''?style=social)'',
            []])"

definition generateReadme :: "ProjectConfig \<Rightarrow> string" where
  "generateReadme config =
     (let badges = generateReadme_badges config;
          description = orElse (description config)
                          ''A new npm package created with forge-npm-pkg.''
      in join nl
           [''# '' @ packageName config,
            [],
            badges @ description,
            [],
            ''## Installation'',
            [],
            ''```bash'',
            ''npm install '' @ packageName config,
            ''```'',
            [],
            ''## Usage'',
            [],
            ''```'' @ languageName (language config),
            ''import { greet } from '' @ apos @ packageName config @ apos @ '';'',
            [],
            ''console.log(greet('' @ apos @ ''World'' @ apos @ '')); // Hello, World!'',
            ''```'',
            [],
            ''## Development'',
            [],
            ''### Build'',
            [],
            ''```bash'',
            ''npm run build'',
            ''```'',
            [],
            (if testRunner config \<noteq> none
             then join nl [''### Test'',
                           [],
                           ''```bash'',
                           ''npm test'',
                           ''```'',
                           []]
             else []),
            (if useLinting config
             then join nl [''### Lint'',
                           [],
                           ''```bash'',
                           ''npm run lint'',
                           ''npm run format'',
                           ''```'',
                           []]
             else []),
            (if language config = typescript
             then join nl [''### Validate Package Exports'',
                           [],
                           ''```bash'',
                           ''npm run check:exports'',
                           ''```'',
                           []]
             else []),
            (if enabled (setupCD config)
             then join nl [''## Release Workflow'',
                           [],
                           ''This package uses automated publishing via GitHub Actions.'',
                           [],
                           ''### Creating a Release'',
                           [],
                           ''1. **Make your changes** and commit them'',
                           ''2. **Update the version:**'',
                           ''   ```bash'',
                           ''   npm version patch  # for bug fixes'',
                           ''   npm version minor  # for new features'',
                           ''   npm version major  # for breaking changes'',
                           ''   ```'',
                           ''3. **Push the changes and tags:**'',
                           ''   ```bash'',
                           ''   git push && git push --tags'',
                           ''   ```'',
                           ''4. **Package automatically publishes to npm** ''
                             @ [CHR 0xF0, CHR 0x9F, CHR 0x8E, CHR 0x89],
                           [],
                           ''The GitHub Actions workflow will automatically:'',
                           ''- Run all tests'',
                           ''- Build the package'',
                           ''- Publish to npm when a git tag is pushed'',
                           [],
                           []]
             else []),
            (if truthy (githubUsername config)
             then join nl [''## Contributing'',
                           [],
                           ''Contributions are welcome! Please feel free to submit a Pull Request.'',
                           [],
                           ''## Issues'',
                           [],
                           ''If you encounter any issues, please report them [here](https://github.com/''
                             @ the (githubUsername config) @ ''/'' @ packageName config
                             @ ''/issues).'',
                           [],
                           []]
             else []),
            ''## License'',
            [],
            ''MIT'' @ (if truthy (author config)
                       then '' '' @ [CHR 0xC2, CHR 0xA9] @ '' '' @ the (author config)
                       else []),
            []])"

section \<open>The package-name validator (\<^verbatim>\<open>index.ts\<close>)\<close>

text \<open>
  The validator tests the name against a regular expression. The expression is kept as
  data, in the shape the source writes it, and \<^verbatim>\<open>RegExp.prototype.test\<close> is a matcher
  over that data. The pattern is anchored at both ends and has neither back-references
  nor look-around, so \<^verbatim>\<open>test\<close> answers whether the whole string is in its language.
\<close>

datatype regex =
    Never
  | Empty
  | Lit char
  | Class "(char \<times> char) list"
  | Seq regex regex
  | Alt regex regex
  | Opt regex
  | Star regex

text \<open>A character class is a list of ranges \<open>(lo, hi)\<close>; a single character is \<open>(c, c)\<close>.\<close>

definition inRange :: "char \<Rightarrow> char \<times> char \<Rightarrow> bool" where
  "inRange c r = ((of_char (fst r) :: nat) \<le> of_char c \<and> (of_char c :: nat) \<le> of_char (snd r))"

definition inClass :: "char \<Rightarrow> (char \<times> char) list \<Rightarrow> bool" where
  "inClass c rs = list_ex (inRange c) rs"

fun nullable :: "regex \<Rightarrow> bool" where
  "nullable Never = False"
| "nullable Empty = True"
| "nullable (Lit c) = False"
| "nullable (Class rs) = False"
| "nullable (Seq r s) = (nullable r \<and> nullable s)"
| "nullable (Alt r s) = (nullable r \<or> nullable s)"
| "nullable (Opt r) = True"
| "nullable (Star r) = True"

text \<open>What is left of the expression once the character \<open>c\<close> has been read.\<close>

fun after :: "char \<Rightarrow> regex \<Rightarrow> regex" where
  "after c Never = Never"
| "after c Empty = Never"
| "after c (Lit d) = (if c = d then Empty else Never)"
| "after c (Class rs) = (if inClass c rs then Empty else Never)"
| "after c (Seq r s) =
     (if nullable r then Alt (Seq (after c r) s) (after c s) else Seq (after c r) s)"
| "after c (Alt r s) = Alt (after c r) (after c s)"
| "after c (Opt r) = after c r"
| "after c (Star r) = Seq (after c r) (Star r)"

text \<open>\<^verbatim>\<open>/^r$/.test(s)\<close>.\<close>

fun test :: "regex \<Rightarrow> string \<Rightarrow> bool" where
  "test r [] = nullable r"
| "test r (c # cs) = test (after c r) cs"

text \<open>The class \<^verbatim>\<open>[a-z0-9-~]\<close>.\<close>

definition firstClass :: regex where
  "firstClass = Class [(CHR ''a'', CHR ''z''), (CHR ''0'', CHR ''9''),
                       (CHR ''-'', CHR ''-''), (CHR ''~'', CHR ''~'')]"

text \<open>The class \<^verbatim>\<open>[a-z0-9-._~]\<close>.\<close>

definition restClass :: regex where
  "restClass = Class [(CHR ''a'', CHR ''z''), (CHR ''0'', CHR ''9''),
                      (CHR ''-'', CHR ''-''), (CHR ''.'', CHR ''.''),
                      (CHR ''_'', CHR ''_''), (CHR ''~'', CHR ''~'')]"

text \<open>\<^verbatim>\<open>/^(@[a-z0-9-~][a-z0-9-._~]*\/)?[a-z0-9-~][a-z0-9-._~]*$/\<close>.\<close>

definition scopedPackagePattern :: regex where
  "scopedPackagePattern =
     Seq (Opt (Seq (Lit CHR ''@'') (Seq firstClass (Seq (Star restClass) (Lit CHR ''/'')))))
         (Seq firstClass (Star restClass))"

definition NPM_NAME_MAX_LENGTH :: nat where
  "NPM_NAME_MAX_LENGTH = 214"

definition reserved :: "string list" where
  "reserved = [''node_modules'', ''favicon.ico'']"

text \<open>The result is the error message, or \<open>None\<close> for \<^verbatim>\<open>undefined\<close> (the name is valid).\<close>

definition validatePackageName :: "string \<Rightarrow> string option" where
  \<open>validatePackageName name =
     (if name = [] then Some ''Package name is required''
      else if length name > NPM_NAME_MAX_LENGTH
      then Some ''Package name must be 214 characters or less''
      else if \<not> test scopedPackagePattern name
      then Some ''Package name must be lowercase and can only contain letters, numbers, hyphens, underscores, and @/ for scoped packages''
      else if name \<in> set reserved
      then Some (''"'' @ name @ ''" is a reserved package name'')
      else None)\<close>

text \<open>
  The set of strings a regular expression denotes; the matcher is proved against it
  below, and the claims about the validator are proved through it.
\<close>

definition conc :: "string set \<Rightarrow> string set \<Rightarrow> string set" where
  "conc A B = {u @ v |u v. u \<in> A \<and> v \<in> B}"

inductive_set star :: "string set \<Rightarrow> string set" for A :: "string set" where
  star_Nil: "[] \<in> star A"
| star_app: "u \<in> A \<Longrightarrow> v \<in> star A \<Longrightarrow> u @ v \<in> star A"

fun lang :: "regex \<Rightarrow> string set" where
  "lang Never = {}"
| "lang Empty = {[]}"
| "lang (Lit c) = {[c]}"
| "lang (Class rs) = {[c] |c. inClass c rs}"
| "lang (Seq r s) = conc (lang r) (lang s)"
| "lang (Alt r s) = lang r \<union> lang s"
| "lang (Opt r) = insert [] (lang r)"
| "lang (Star r) = star (lang r)"

text \<open>The two kinds of character a name is made of, and a name part (scope or name).\<close>

definition firstChar :: "char \<Rightarrow> bool" where
  "firstChar c = inClass c [(CHR ''a'', CHR ''z''), (CHR ''0'', CHR ''9''),
                            (CHR ''-'', CHR ''-''), (CHR ''~'', CHR ''~'')]"

definition restChar :: "char \<Rightarrow> bool" where
  "restChar c = inClass c [(CHR ''a'', CHR ''z''), (CHR ''0'', CHR ''9''),
                           (CHR ''-'', CHR ''-''), (CHR ''.'', CHR ''.''),
                           (CHR ''_'', CHR ''_''), (CHR ''~'', CHR ''~'')]"

fun namePart :: "string \<Rightarrow> bool" where
  "namePart [] = False"
| "namePart (c # cs) = (firstChar c \<and> list_all restChar cs)"

section \<open>The command-line action (\<^verbatim>\<open>index.ts\<close>)\<close>

text \<open>
  The action talks to a user, reads its surroundings and writes files. All three are
  explicit here. A prompt's outcome is a \<open>response\<close>: the value the prompt library hands
  back, or the cancel symbol. The user is the record of what they would reply to each
  prompt; no prompt is shown twice in one run.
\<close>

datatype 'a response = Cancelled | Answer 'a

datatype prompt =
    AskPackageName | AskCreatePackage | AskContinueAnyway
  | AskLanguage | AskTestRunner | AskLinting | AskGit
  | AskCI | AskCD | AskCodecov | AskDependabot
  | AskDescription | AskUseGitConfig | AskAuthorName | AskAuthorEmail | AskGithubUsername
  | AskSaveConfig | AskPackageManager | AskProceed | AskInstall

record user =
  replyPackageName :: "string response"
  replyCreatePackage :: "bool response"
  replyContinueAnyway :: "bool response"
  replyLanguage :: "language response"
  replyTestRunner :: "testRunner response"
  replyLinting :: "bool response"
  replyGit :: "bool response"
  replyCI :: "bool response"
  replyCD :: "bool response"
  replyCodecov :: "bool response"
  replyDependabot :: "bool response"
  replyDescription :: "string response"
  replyUseGitConfig :: "bool response"
  replyAuthorName :: "string response"
  replyAuthorEmail :: "string response"
  replyGithubUsername :: "string response"
  replySaveConfig :: "bool response"
  replyPackageManager :: "packageManager response"
  replyProceed :: "bool response"
  replyInstall :: "bool response"



text \<open>
  The flags the action reads from \<^verbatim>\<open>options\<close>. The language, test-runner, lint and git
  flags are declared on the command but the action never reads them.
\<close>

record options =
  flagConfig :: bool
  flagResetConfig :: bool
  flagDryRun :: bool
  flagYes :: bool
  flagSkipInstall :: bool
  flagNoSave :: bool

record UserConfig =
  storedAuthor :: "string option"
  storedEmail :: "string option"
  storedGithub :: "string option"

record GitConfig =
  gitName :: "string option"
  gitEmail :: "string option"

text \<open>
  What the run does to the target directory, in order: directories created, files
  written (by path; the content is the matching generator's output) and commands run
  inside it.
\<close>

datatype effect = Mkdir string | WriteFile string | ExecSync string string

text \<open>
  The surroundings: whether \<^verbatim>\<open>npm view\<close> finds the name, the working directory, which
  paths exist, the stored user profile as \<^verbatim>\<open>readUserConfig\<close> returns it, the trimmed
  output of the two \<^verbatim>\<open>git config\<close> commands (\<open>None\<close> when either throws), the
  package manager's user-agent variable, which operations fail, and whether deleting
  the stored profile throws.
\<close>

record environment =
  npmViewSucceeds :: "string \<Rightarrow> bool"
  cwd :: string
  existsSync :: "string \<Rightarrow> bool"
  readUserConfig :: "UserConfig option"
  gitConfigOutput :: "(string \<times> string) option"
  npm_config_user_agent :: "string option"
  fails :: "effect \<Rightarrow> bool"
  resetUserConfigThrows :: bool

record log =
  asked :: "prompt list"
  effects :: "effect list"

text \<open>
  A piece of the action either goes on with a value or ends the process with an exit
  code; either way it has extended the log.
\<close>

type_synonym 'a flow = "log \<Rightarrow> (nat + 'a) \<times> log"

definition continue :: "'a \<Rightarrow> 'a flow" where
  "continue v = (\<lambda>l. (Inr v, l))"

text \<open>\<^verbatim>\<open>process.exit(code)\<close>.\<close>

definition processExit :: "nat \<Rightarrow> 'a flow" where
  "processExit code = (\<lambda>l. (Inl code, l))"

definition andThen :: "'a flow \<Rightarrow> ('a \<Rightarrow> 'b flow) \<Rightarrow> 'b flow" where
  "andThen m f = (\<lambda>l. case m l of (Inl code, l') \<Rightarrow> (Inl code, l') | (Inr v, l') \<Rightarrow> f v l')"

text \<open>\<^verbatim>\<open>handleCancel(await clack.\<dots>)\<close>: the prompt is shown, and a cancel exits with code 0.\<close>

definition handleCancel :: "prompt \<Rightarrow> 'a response \<Rightarrow> 'a flow" where
  "handleCancel q r =
     (\<lambda>l. (case r of Cancelled \<Rightarrow> Inl 0 | Answer v \<Rightarrow> Inr v, l\<lparr>asked := asked l @ [q]\<rparr>))"

text \<open>
  \<^verbatim>\<open>clack.text\<close> with a \<^verbatim>\<open>defaultValue\<close>: an empty submission yields the default.
\<close>

definition withDefault :: "string response \<Rightarrow> string \<Rightarrow> string response" where
  "withDefault r d = (case r of Cancelled \<Rightarrow> Cancelled
                      | Answer s \<Rightarrow> Answer (if s = [] then d else s))"

text \<open>
  \<^verbatim>\<open>mkdir\<close> and \<^verbatim>\<open>writeFile\<close>: a failure throws, nothing below the action's outer
  \<^verbatim>\<open>try\<close> catches it, and the outer \<^verbatim>\<open>catch\<close> exits with code 1.
\<close>

definition fsOp :: "environment \<Rightarrow> effect \<Rightarrow> unit flow" where
  "fsOp env e =
     (\<lambda>l. (if fails env e then Inl 1 else Inr (), l\<lparr>effects := effects l @ [e]\<rparr>))"

text \<open>\<^verbatim>\<open>execSync\<close> inside a \<^verbatim>\<open>try\<close> of its own: the result says whether it succeeded.\<close>

definition tryExec :: "environment \<Rightarrow> string \<Rightarrow> string \<Rightarrow> bool flow" where
  "tryExec env cmd dir =
     (\<lambda>l. (Inr (\<not> fails env (ExecSync cmd dir)), l\<lparr>effects := effects l @ [ExecSync cmd dir]\<rparr>))"

definition pathJoin :: "string \<Rightarrow> string \<Rightarrow> string" where
  "pathJoin a b = a @ ''/'' @ b"

definition readGitConfig :: "environment \<Rightarrow> GitConfig option" where
  "readGitConfig env =
     (case gitConfigOutput env of
        None \<Rightarrow> None
      | Some (name, email) \<Rightarrow>
          if name \<noteq> [] \<or> email \<noteq> []
          then Some \<lparr>gitName = orUndefined name, gitEmail = orUndefined email\<rparr>
          else None)"

definition detectPackageManager :: "environment \<Rightarrow> packageManager" where
  "detectPackageManager env =
     (let userAgent = orElse (npm_config_user_agent env) [] in
      if includesStr userAgent ''pnpm'' then pnpm
      else if includesStr userAgent ''yarn'' then yarn
      else if includesStr userAgent ''bun'' then bun
      else npm)"

definition packageManagerName :: "packageManager \<Rightarrow> string" where
  "packageManagerName pm =
     (case pm of npm \<Rightarrow> ''npm'' | pnpm \<Rightarrow> ''pnpm'' | yarn \<Rightarrow> ''yarn'' | bun \<Rightarrow> ''bun'')"

text \<open>
  Step 1: the package name, the availability check and its confirmation. Here \<open>arg\<close> is
  the positional \<^verbatim>\<open>packageName\<close> argument of the action.
\<close>

definition resolvePackageName ::
  "options \<Rightarrow> string option \<Rightarrow> user \<Rightarrow> environment \<Rightarrow> string flow" where
  "resolvePackageName opts arg u env =
     (let useDefaults = flagYes opts in
      andThen
        (if \<not> truthy arg then handleCancel AskPackageName (replyPackageName u)
         else if \<not> useDefaults then
           andThen (handleCancel AskCreatePackage (replyCreatePackage u))
             (\<lambda>confirmed. if \<not> confirmed then processExit 0
                           else continue (the arg))
         else continue (the arg))
        (\<lambda>finalPackageName.
           let isAvailable = \<not> npmViewSucceeds env finalPackageName in
           if \<not> isAvailable \<and> \<not> useDefaults then
             andThen (handleCancel AskContinueAnyway (replyContinueAnyway u))
               (\<lambda>continueAnyway. if \<not> continueAnyway then processExit 0
                                  else continue finalPackageName)
           else continue finalPackageName))"

text \<open>The check that the target directory does not exist yet; the result is the target.\<close>

definition checkTargetDir :: "environment \<Rightarrow> string \<Rightarrow> string flow" where
  "checkTargetDir env finalPackageName =
     (let targetDir = pathJoin (cwd env) finalPackageName in
      if existsSync env targetDir then processExit 1 else continue targetDir)"

record choices =
  chosenLanguage :: language
  chosenModuleType :: moduleType
  chosenTestRunner :: testRunner
  chosenLinting :: bool
  chosenGit :: bool
  chosenCI :: bool
  chosenCD :: bool
  chosenCodecov :: bool
  chosenDependabot :: bool

text \<open>Step 2: the defaults of \<^verbatim>\<open>--yes\<close>, or the configuration questions.\<close>

definition resolveChoices :: "options \<Rightarrow> user \<Rightarrow> choices flow" where
  "resolveChoices opts u =
     (let useDefaults = flagYes opts in
      if useDefaults then
        continue \<lparr>chosenLanguage = typescript, chosenModuleType = dual,
                  chosenTestRunner = vitest, chosenLinting = True, chosenGit = False,
                  chosenCI = True, chosenCD = False, chosenCodecov = False,
                  chosenDependabot = False\<rparr>
      else
        andThen (handleCancel AskLanguage (replyLanguage u)) (\<lambda>language.
        let moduleType = dual in
        andThen (handleCancel AskTestRunner (replyTestRunner u)) (\<lambda>testRunner.
        andThen (handleCancel AskLinting (replyLinting u)) (\<lambda>useLinting.
        andThen (handleCancel AskGit (replyGit u)) (\<lambda>initGit.
        andThen (handleCancel AskCI (replyCI u)) (\<lambda>setupCI.
        andThen
          (if setupCI then
             andThen (handleCancel AskCD (replyCD u)) (\<lambda>setupCD.
             andThen
               (if testRunner \<noteq> none then handleCancel AskCodecov (replyCodecov u)
                else continue False)
               (\<lambda>useCodecov.
             andThen (handleCancel AskDependabot (replyDependabot u)) (\<lambda>useDependabot.
             continue (setupCD, useCodecov, useDependabot))))
           else continue (False, False, False))
          (\<lambda>(setupCD, useCodecov, useDependabot).
        continue \<lparr>chosenLanguage = language, chosenModuleType = moduleType,
                  chosenTestRunner = testRunner, chosenLinting = useLinting,
                  chosenGit = initGit, chosenCI = setupCI, chosenCD = setupCD,
                  chosenCodecov = useCodecov, chosenDependabot = useDependabot\<rparr>)))))))"

record metadata =
  metaDescription :: "string option"
  metaAuthor :: "string option"
  metaAuthorEmail :: "string option"
  metaGithubUsername :: "string option"
  shouldSaveConfig :: bool

text \<open>The three text prompts for the author, with the given default for name and email.\<close>

definition askAuthorFields ::
  "user \<Rightarrow> string \<Rightarrow> string \<Rightarrow> (string option \<times> string option \<times> string option) flow" where
  "askAuthorFields u defaultName defaultEmail =
     andThen (handleCancel AskAuthorName (withDefault (replyAuthorName u) defaultName))
       (\<lambda>author.
     andThen (handleCancel AskAuthorEmail (withDefault (replyAuthorEmail u) defaultEmail))
       (\<lambda>authorEmail.
     andThen (handleCancel AskGithubUsername (withDefault (replyGithubUsername u) []))
       (\<lambda>githubUsername.
     continue (orUndefined author, orUndefined authorEmail, orUndefined githubUsername))))"

text \<open>Step 3: description and author, from the stored profile, git, or the prompts.\<close>

definition resolveMetadata :: "options \<Rightarrow> user \<Rightarrow> environment \<Rightarrow> metadata flow" where
  "resolveMetadata opts u env =
     (let useDefaults = flagYes opts in
      if useDefaults then
        continue \<lparr>metaDescription = None, metaAuthor = None, metaAuthorEmail = None,
                  metaGithubUsername = None, shouldSaveConfig = False\<rparr>
      else
        andThen (handleCancel AskDescription (withDefault (replyDescription u) []))
          (\<lambda>descriptionText.
        let description = orUndefined descriptionText;
            storedConfig = readUserConfig env
        in
        case storedConfig of
          Some stored \<Rightarrow>
            continue \<lparr>metaDescription = description, metaAuthor = storedAuthor stored,
                      metaAuthorEmail = storedEmail stored,
                      metaGithubUsername = storedGithub stored, shouldSaveConfig = False\<rparr>
        | None \<Rightarrow>
            andThen
              (case readGitConfig env of
                 None \<Rightarrow> askAuthorFields u [] []
               | Some gitConfig \<Rightarrow>
                   if truthy (gitName gitConfig) \<or> truthy (gitEmail gitConfig) then
                     andThen (handleCancel AskUseGitConfig (replyUseGitConfig u))
                       (\<lambda>useGitConfig.
                          if useGitConfig then
                            andThen (handleCancel AskGithubUsername
                                       (withDefault (replyGithubUsername u) []))
                              (\<lambda>githubUsername.
                                 continue (gitName gitConfig, gitEmail gitConfig,
                                           orUndefined githubUsername))
                          else askAuthorFields u (orElse (gitName gitConfig) [])
                                 (orElse (gitEmail gitConfig) []))
                   else askAuthorFields u [] [])
              (\<lambda>(author, authorEmail, githubUsername).
                 andThen
                   (if \<not> flagNoSave opts
                       \<and> (truthy author \<or> truthy authorEmail \<or> truthy githubUsername)
                    then handleCancel AskSaveConfig (replySaveConfig u)
                    else continue False)
                   (\<lambda>save.
                      continue \<lparr>metaDescription = description, metaAuthor = author,
                                metaAuthorEmail = authorEmail,
                                metaGithubUsername = githubUsername,
                                shouldSaveConfig = save\<rparr>))))"

text \<open>\<^verbatim>\<open>x || undefined\<close> on an optional string.\<close>

definition orUndefinedOpt :: "string option \<Rightarrow> string option" where
  "orUndefinedOpt v = (if truthy v then v else None)"

text \<open>
  Steps 1 to 4 and the assembly of the configuration object: the result is the
  configuration, the target directory and whether the profile is to be saved.
\<close>

definition resolveConfiguration ::
  "options \<Rightarrow> string option \<Rightarrow> user \<Rightarrow> environment \<Rightarrow> (ProjectConfig \<times> string \<times> bool) flow" where
  "resolveConfiguration opts arg u env =
     (let useDefaults = flagYes opts in
      andThen (resolvePackageName opts arg u env) (\<lambda>finalPackageName.
      andThen (checkTargetDir env finalPackageName) (\<lambda>targetDir.
      andThen (resolveChoices opts u) (\<lambda>c.
      andThen (resolveMetadata opts u env) (\<lambda>m.
      andThen
        (if useDefaults then continue (detectPackageManager env)
         else handleCancel AskPackageManager (replyPackageManager u))
        (\<lambda>pm.
      continue
        (\<lparr>packageName = finalPackageName,
          language = chosenLanguage c,
          moduleType = chosenModuleType c,
          testRunner = chosenTestRunner c,
          useLinting = chosenLinting c,
          initGit = chosenGit c,
          setupCI = Some (chosenCI c),
          setupCD = Some (chosenCD c),
          useCodecov = Some (chosenCodecov c),
          useDependabot = Some (chosenDependabot c),
          packageManager = Some pm,
          description = orUndefinedOpt (metaDescription m),
          author = orUndefinedOpt (metaAuthor m),
          authorEmail = orUndefinedOpt (metaAuthorEmail m),
          githubUsername = orUndefinedOpt (metaGithubUsername m)\<rparr>,
         targetDir, shouldSaveConfig m)))))))"

text \<open>The operations of \<^verbatim>\<open>createProject\<close>, in the order it performs them.\<close>

definition createProject_ops :: "ProjectConfig \<Rightarrow> string \<Rightarrow> effect list" where
  "createProject_ops config targetDir =
     (let srcDir = pathJoin targetDir ''src'';
          ext = (if language config = typescript then ''ts'' else ''js'');
          githubDir = pathJoin targetDir ''.github'';
          workflowDir = pathJoin githubDir ''workflows''
      in
      [Mkdir targetDir, Mkdir srcDir, WriteFile (pathJoin srcDir (''index.'' @ ext))]
      @ (if testRunner config \<noteq> none
         then [WriteFile (pathJoin srcDir (''index.test.'' @ ext))] else [])
      @ [WriteFile (pathJoin targetDir ''package.json''),
         WriteFile (pathJoin targetDir ''README.md''),
         WriteFile (pathJoin targetDir ''.gitignore'')]
      @ (if language config = typescript
         then [WriteFile (pathJoin targetDir ''.npmignore'')] else [])
      @ (if language config = typescript
         then [WriteFile (pathJoin targetDir ''tsconfig.json''),
               WriteFile (pathJoin targetDir ''tsup.config.ts''),
               WriteFile (pathJoin targetDir ''index.js''),
               WriteFile (pathJoin targetDir ''index.d.ts'')]
              @ (if moduleType config = dual
                 then [WriteFile (pathJoin targetDir ''index.mjs'')] else [])
         else [])
      @ (if useLinting config
         then [WriteFile (pathJoin targetDir ''.eslintrc.json''),
               WriteFile (pathJoin targetDir ''.prettierrc''),
               WriteFile (pathJoin targetDir ''.editorconfig'')]
         else [])
      @ (if testRunner config = vitest
         then [WriteFile (pathJoin targetDir ''vitest.config.ts'')]
         else if testRunner config = jest
         then [WriteFile (pathJoin targetDir (''jest.config.'' @ ext))]
         else [])
      @ (if enabled (setupCD config) \<or> enabled (setupCI config)
            \<or> enabled (useDependabot config)
         then [Mkdir workflowDir]
              @ (if enabled (setupCD config)
                 then [WriteFile (pathJoin workflowDir ''publish.yml'')] else [])
              @ (if enabled (setupCI config)
                 then [WriteFile (pathJoin workflowDir ''ci.yml'')] else [])
              @ (if enabled (useDependabot config)
                 then [WriteFile (pathJoin githubDir ''dependabot.yml'')] else [])
         else []))"

fun performAll :: "environment \<Rightarrow> effect list \<Rightarrow> unit flow" where
  "performAll env [] = continue ()"
| "performAll env (e # es) = andThen (fsOp env e) (\<lambda>_. performAll env es)"

definition createProject :: "environment \<Rightarrow> ProjectConfig \<Rightarrow> string \<Rightarrow> unit flow" where
  "createProject env config targetDir = performAll env (createProject_ops config targetDir)"

text \<open>The git task: three commands, the first failure skips the rest.\<close>

definition gitTask :: "environment \<Rightarrow> string \<Rightarrow> unit flow" where
  \<open>gitTask env targetDir =
     andThen (tryExec env ''git init'' targetDir) (\<lambda>ok.
       if \<not> ok then continue ()
       else andThen (tryExec env ''git add .'' targetDir) (\<lambda>ok.
         if \<not> ok then continue ()
         else andThen (tryExec env ''git commit -m "chore: initial commit"'' targetDir)
                (\<lambda>_. continue ())))\<close>

text \<open>Steps 7 to 9: the install question, the installation and what follows it.\<close>

definition installAndVerify ::
  "options \<Rightarrow> user \<Rightarrow> environment \<Rightarrow> ProjectConfig \<Rightarrow> string \<Rightarrow> unit flow" where
  "installAndVerify opts u env config targetDir =
     (let useDefaults = flagYes opts;
          skipInstall = flagSkipInstall opts;
          pm = packageManagerName (the (packageManager config))
      in
      andThen
        (if \<not> skipInstall \<and> \<not> useDefaults then handleCancel AskInstall (replyInstall u)
         else continue (\<not> skipInstall))
        (\<lambda>shouldInstall.
           if shouldInstall then
             andThen (tryExec env (if the (packageManager config) = yarn then ''yarn''
                                   else pm @ '' install'') targetDir) (\<lambda>_.
             andThen (if initGit config then gitTask env targetDir else continue ()) (\<lambda>_.
             if language config = typescript
             then andThen (tryExec env (pm @ '' run build'') targetDir) (\<lambda>_. continue ())
             else continue ()))
           else continue ()))"

text \<open>
  The whole action. The two profile flags end the run before anything else; a rejected
  promise of the action (the profile could not be deleted) ends the process with code 1.
  Saving the profile at the end writes outside the target and cannot end the run.
\<close>

definition action :: "options \<Rightarrow> string option \<Rightarrow> user \<Rightarrow> environment \<Rightarrow> unit flow" where
  "action opts arg u env =
     (if flagConfig opts then processExit 0
      else if flagResetConfig opts then
        (if resetUserConfigThrows env then processExit 1 else processExit 0)
      else
        andThen (resolveConfiguration opts arg u env) (\<lambda>(config, targetDir, save).
        andThen
          (if \<not> flagYes opts then
             andThen (handleCancel AskProceed (replyProceed u))
               (\<lambda>proceed. if \<not> proceed then processExit 0 else continue ())
           else continue ())
          (\<lambda>_.
        if flagDryRun opts then continue ()
        else
          andThen (createProject env config targetDir) (\<lambda>_.
          installAndVerify opts u env config targetDir))))"

record outcome =
  exitCode :: nat
  prompted :: "prompt list"
  performed :: "effect list"

text \<open>A run from the empty log; an action that returns lets the process end with code 0.\<close>

definition run :: "options \<Rightarrow> string option \<Rightarrow> user \<Rightarrow> environment \<Rightarrow> outcome" where
  "run opts arg u env =
     (case action opts arg u env \<lparr>asked = [], effects = []\<rparr> of
        (r, l) \<Rightarrow> \<lparr>exitCode = (case r of Inl code \<Rightarrow> code | Inr _ \<Rightarrow> 0),
                    prompted = asked l, performed = effects l\<rparr>)"

section \<open>The specification's entry-point table\<close>

text \<open>
  The table of the specification (manifest assembler, rule 2), written from its words
  and not from the code: for each language and module format, the values of \<^verbatim>\<open>main\<close>,
  \<^verbatim>\<open>module\<close>, \<^verbatim>\<open>types\<close> and \<^verbatim>\<open>exports\<close>, with \<open>None\<close> for a field that is not emitted.
  JavaScript points \<^verbatim>\<open>main\<close> (and \<^verbatim>\<open>module\<close> for esm and dual) at the source entry, has a
  bare string as export target and no \<^verbatim>\<open>types\<close>. TypeScript points at the root re-export
  files, with the conditions \<open>{types, import}\<close> for esm, \<open>{types, require}\<close> for commonjs
  and \<open>{types, import, require}\<close> for dual, where \<^verbatim>\<open>import\<close> is the \<^verbatim>\<open>.mjs\<close> file and
  \<^verbatim>\<open>require\<close> the \<^verbatim>\<open>.js\<close> file.
\<close>

fun spec_entryPoints :: "language \<Rightarrow> moduleType \<Rightarrow> json option list" where
  "spec_entryPoints javascript commonjs =
     [Some (JString ''./src/index.js''), None, None,
      Some (JObject [(''.'', JString ''./src/index.js'')])]"
| "spec_entryPoints javascript esm =
     [Some (JString ''./src/index.js''), Some (JString ''./src/index.js''), None,
      Some (JObject [(''.'', JString ''./src/index.js'')])]"
| "spec_entryPoints javascript dual =
     [Some (JString ''./src/index.js''), Some (JString ''./src/index.js''), None,
      Some (JObject [(''.'', JString ''./src/index.js'')])]"
| "spec_entryPoints typescript esm =
     [Some (JString ''./index.js''), None, Some (JString ''./index.d.ts''),
      Some (JObject [(''.'', JObject [(''types'', JString ''./index.d.ts''),
                                      (''import'', JString ''./index.js'')])])]"
| "spec_entryPoints typescript commonjs =
     [Some (JString ''./index.js''), None, Some (JString ''./index.d.ts''),
      Some (JObject [(''.'', JObject [(''types'', JString ''./index.d.ts''),
                                      (''require'', JString ''./index.js'')])])]"
| "spec_entryPoints typescript dual =
     [Some (JString ''./index.js''), Some (JString ''./index.mjs''),
      Some (JString ''./index.d.ts''),
      Some (JObject [(''.'', JObject [(''types'', JString ''./index.d.ts''),
                                      (''import'', JString ''./index.mjs''),
                                      (''require'', JString ''./index.js'')])])]"

text \<open>The spec's type field: \<^verbatim>\<open>commonjs\<close> gives "commonjs", esm and dual give "module".\<close>

fun spec_type :: "moduleType \<Rightarrow> string" where
  "spec_type commonjs = ''commonjs''"
| "spec_type esm = ''module''"
| "spec_type dual = ''module''"

section \<open>Example configurations\<close>

text \<open>The configuration of the workflow tests: TypeScript, esm, Vitest, linting, CI.\<close>

definition testConfig :: ProjectConfig where
  "testConfig =
     \<lparr>packageName = ''test-package'', language = typescript, moduleType = esm,
      testRunner = vitest, useLinting = True, initGit = False,
      setupCI = Some True, setupCD = Some False, useCodecov = Some False,
      useDependabot = None, packageManager = None, description = None,
      author = None, authorEmail = None, githubUsername = None\<rparr>"

section \<open>Notions the validator's claims are stated with\<close>

text \<open>An uppercase letter, and a character the pattern can read at some position.\<close>

definition upperCase :: "char \<Rightarrow> bool" where
  "upperCase c = inRange c (CHR ''A'', CHR ''Z'')"

definition allowedSymbol :: "char \<Rightarrow> bool" where
  "allowedSymbol c = (restChar c \<or> c = CHR ''@'' \<or> c = CHR ''/'')"

section \<open>Notions the action's claims are stated and proved with\<close>




text \<open>
  A user who names the package \<open>sample-lib\<close> and accepts every question, with Vitest and
  coverage upload; surroundings in which nothing exists yet and nothing fails; and the
  command line without any flag.
\<close>

definition sampleUser :: user where
  "sampleUser =
     \<lparr>replyPackageName = Answer ''sample-lib'', replyCreatePackage = Answer True,
      replyContinueAnyway = Answer True, replyLanguage = Answer typescript,
      replyTestRunner = Answer vitest, replyLinting = Answer True, replyGit = Answer False,
      replyCI = Answer True, replyCD = Answer False, replyCodecov = Answer True,
      replyDependabot = Answer False, replyDescription = Answer [],
      replyUseGitConfig = Answer True, replyAuthorName = Answer ''John Doe'',
      replyAuthorEmail = Answer [], replyGithubUsername = Answer [],
      replySaveConfig = Answer False, replyPackageManager = Answer npm,
      replyProceed = Answer True, replyInstall = Answer True\<rparr>"

definition emptyEnvironment :: environment where
  "emptyEnvironment =
     \<lparr>npmViewSucceeds = (\<lambda>name. False), cwd = ''/home/user'', existsSync = (\<lambda>path. False),
      readUserConfig = None, gitConfigOutput = None, npm_config_user_agent = None,
      fails = (\<lambda>e. False), resetUserConfigThrows = False\<rparr>"

definition noFlags :: options where
  "noFlags =
     \<lparr>flagConfig = False, flagResetConfig = False, flagDryRun = False, flagYes = False,
      flagSkipInstall = False, flagNoSave = False\<rparr>"

definition startLog :: log where
  "startLog = \<lparr>asked = [], effects = []\<rparr>"

section \<open>Notions the workflow claim is stated with\<close>







section \<open>Properties of the string helpers\<close>

lemma includesStr_iff: "includesStr s t \<longleftrightarrow> (\<exists>p q. s = p @ t @ q)"
proof (induction s)
  case Nil
  then show ?case by auto
next
  case (Cons c cs)
  show ?case
  proof
    assume "includesStr (c # cs) t"
    then consider "prefix t (c # cs)" | "includesStr cs t" by auto
    then show "\<exists>p q. c # cs = p @ t @ q"
    proof cases
      case 1
      then obtain q where "c # cs = t @ q" by (auto simp: prefix_def)
      then have "c # cs = [] @ t @ q" by simp
      then show ?thesis by blast
    next
      case 2
      with Cons.IH obtain p q where "cs = p @ t @ q" by blast
      then have "c # cs = (c # p) @ t @ q" by simp
      then show ?thesis by blast
    qed
  next
    assume "\<exists>p q. c # cs = p @ t @ q"
    then obtain p q where pq: "c # cs = p @ t @ q" by blast
    show "includesStr (c # cs) t"
    proof (cases p)
      case Nil
      with pq have "prefix t (c # cs)" by (simp add: prefix_def)
      then show ?thesis by simp
    next
      case (Cons d p')
      with pq have "cs = p' @ t @ q" by simp
      with Cons.IH have "includesStr cs t" by blast
      then show ?thesis by simp
    qed
  qed
qed

lemma includesStr_self: "includesStr t t"
proof -
  have "t = [] @ t @ []" by simp
  then show ?thesis unfolding includesStr_iff by blast
qed

lemma includesStr_append_left: "includesStr s t \<Longrightarrow> includesStr (s @ u) t"
proof -
  assume "includesStr s t"
  then obtain p q where "s = p @ t @ q" unfolding includesStr_iff by blast
  then have "s @ u = p @ t @ (q @ u)" by simp
  then show ?thesis unfolding includesStr_iff by blast
qed

lemma includesStr_append_right: "includesStr s t \<Longrightarrow> includesStr (u @ s) t"
proof -
  assume "includesStr s t"
  then obtain p q where "s = p @ t @ q" unfolding includesStr_iff by blast
  then have "u @ s = (u @ p) @ t @ q" by simp
  then show ?thesis unfolding includesStr_iff by blast
qed

lemma includesStr_join:
  "x \<in> set xs \<Longrightarrow> includesStr x t \<Longrightarrow> includesStr (join sep xs) t"
proof (induction sep xs rule: join.induct)
  case (1 sep)
  then show ?case by simp
next
  case (2 sep y)
  then show ?case by simp
next
  case (3 sep y z zs)
  show ?case
  proof (cases "x = y")
    case True
    with "3.prems" show ?thesis by (simp add: includesStr_append_left)
  next
    case False
    with "3.prems" have "x \<in> set (z # zs)" by simp
    with "3.IH" "3.prems" have "includesStr (join sep (z # zs)) t" by blast
    then show ?thesis by (simp add: includesStr_append_right)
  qed
qed

section \<open>Properties of the manifest generator\<close>

lemma getProp_assign: "getProp (assign obj k v) k' = (if k' = k then Some v else getProp obj k')"
  by (induction obj k v rule: assign.induct) (auto simp: getProp_def)

lemma getProp_Nil: "getProp [] k = None"
  by (simp add: getProp_def)

lemma getProp_Cons: "getProp ((k, v) # obj) k' = (if k' = k then Some v else getProp obj k')"
  by (auto simp: getProp_def)

lemmas getProp_simps = getProp_assign getProp_Nil getProp_Cons

lemma entryPoints_js_commonjs:
  "language c = javascript \<Longrightarrow> moduleType c = commonjs \<Longrightarrow>
   generateEntryPoints c =
     [(''main'', JString ''./src/index.js''),
      (''exports'', JObject [(''.'', JString ''./src/index.js'')])]"
  by (simp add: generateEntryPoints_def)

lemma entryPoints_js_module:
  "language c = javascript \<Longrightarrow> moduleType c \<noteq> commonjs \<Longrightarrow>
   generateEntryPoints c =
     [(''main'', JString ''./src/index.js''),
      (''module'', JString ''./src/index.js''),
      (''exports'', JObject [(''.'', JString ''./src/index.js'')])]"
  by (cases "moduleType c") (simp_all add: generateEntryPoints_def)

lemma entryPoints_ts:
  "language c = typescript \<Longrightarrow>
   generateEntryPoints c =
     (case moduleType c of
        esm \<Rightarrow> [(''main'', JString ''./index.js''), (''types'', JString ''./index.d.ts''),
                 (''exports'', JObject [(''.'', JObject [(''types'', JString ''./index.d.ts''),
                                                         (''import'', JString ''./index.js'')])])]
      | commonjs \<Rightarrow> [(''main'', JString ''./index.js''), (''types'', JString ''./index.d.ts''),
                 (''exports'', JObject [(''.'', JObject [(''types'', JString ''./index.d.ts''),
                                                         (''require'', JString ''./index.js'')])])]
      | dual \<Rightarrow> [(''main'', JString ''./index.js''), (''module'', JString ''./index.mjs''),
                 (''types'', JString ''./index.d.ts''),
                 (''exports'', JObject [(''.'', JObject [(''types'', JString ''./index.d.ts''),
                                                         (''import'', JString ''./index.mjs''),
                                                         (''require'', JString ''./index.js'')])])])"
  by (cases "moduleType c") (simp_all add: generateEntryPoints_def)

text \<open>
  C1. For each of the six combinations of language and module format, the manifest's
  \<^verbatim>\<open>type\<close> is "commonjs" for commonjs and "module" otherwise, and its \<^verbatim>\<open>main\<close>, \<^verbatim>\<open>module\<close>,
  \<^verbatim>\<open>types\<close> and \<^verbatim>\<open>exports\<close> are those of the specification's table.
\<close>

theorem manifest_entry_points_match_table:
  "getProp (generatePackageJson c) ''type'' = Some (JString (spec_type (moduleType c)))
   \<and> map (getProp (generatePackageJson c)) [''main'', ''module'', ''types'', ''exports'']
       = spec_entryPoints (language c) (moduleType c)"
proof (cases "language c")
  case typescript
  then show ?thesis
    by (cases "moduleType c")
       (simp_all add: generatePackageJson_def entryPoints_ts Let_def getProp_simps)
next
  case javascript
  then show ?thesis
    by (cases "moduleType c")
       (simp_all add: generatePackageJson_def entryPoints_js_commonjs entryPoints_js_module
          Let_def getProp_simps)
qed

theorem manifest_entry_points_match_table_witness:
  "map (getProp (generatePackageJson (testConfig\<lparr>moduleType := dual\<rparr>)))
     [''type'', ''main'', ''module'', ''types'', ''exports'']
   = [Some (JString ''module''), Some (JString ''./index.js''), Some (JString ''./index.mjs''),
      Some (JString ''./index.d.ts''),
      Some (JObject [(''.'', JObject [(''types'', JString ''./index.d.ts''),
                                      (''import'', JString ''./index.mjs''),
                                      (''require'', JString ''./index.js'')])])]"
  using manifest_entry_points_match_table [of "testConfig\<lparr>moduleType := dual\<rparr>"]
  by (simp add: testConfig_def)

text \<open>
  C5. The manifest's \<^verbatim>\<open>files\<close> list is exactly \<open>[src]\<close> for JavaScript; for TypeScript it
  is \<open>dist\<close>, \<open>index.js\<close> and \<open>index.d.ts\<close>, followed by \<open>index.mjs\<close> exactly when the
  module format is dual.
\<close>

theorem manifest_files_allow_list:
  "getProp (generatePackageJson c) ''files''
     = Some (JArray (map JString
         (if language c = javascript then [''src'']
          else if moduleType c = dual then [''dist'', ''index.js'', ''index.d.ts'', ''index.mjs'']
          else [''dist'', ''index.js'', ''index.d.ts''])))
   \<and> generateFilesList c
     = (if language c = javascript then [''src'']
        else if moduleType c = dual then [''dist'', ''index.js'', ''index.d.ts'', ''index.mjs'']
        else [''dist'', ''index.js'', ''index.d.ts''])"
proof -
  have files: "generateFilesList c
     = (if language c = javascript then [''src'']
        else if moduleType c = dual then [''dist'', ''index.js'', ''index.d.ts'', ''index.mjs'']
        else [''dist'', ''index.js'', ''index.d.ts''])"
    by (simp add: generateFilesList_def)
  have "getProp (generatePackageJson c) ''files''
      = Some (JArray (map JString (generateFilesList c)))"
    by (simp add: generatePackageJson_def Let_def getProp_simps)
  with files show ?thesis by simp
qed

theorem manifest_files_allow_list_witness:
  "getProp (generatePackageJson (testConfig\<lparr>moduleType := dual\<rparr>)) ''files''
     = Some (JArray [JString ''dist'', JString ''index.js'', JString ''index.d.ts'',
                     JString ''index.mjs''])
   \<and> getProp (generatePackageJson (testConfig\<lparr>language := javascript\<rparr>)) ''files''
     = Some (JArray [JString ''src''])"
  using manifest_files_allow_list [of "testConfig\<lparr>moduleType := dual\<rparr>"]
        manifest_files_allow_list [of "testConfig\<lparr>language := javascript\<rparr>"]
  by (simp add: testConfig_def)

text \<open>
  C4, as stated, fails: with no author and no description the manifest still has an
  \<^verbatim>\<open>author\<close> entry, the empty string, and a substitute \<^verbatim>\<open>description\<close>.
\<close>

theorem manifest_absent_metadata_counterexample:
  "getProp (generatePackageJson testConfig) ''author'' = Some (JString [])
   \<and> getProp (generatePackageJson testConfig) ''description''
       = Some (JString ''A new npm package'')"
  by (simp add: generatePackageJson_def generateEntryPoints_def authorField_def testConfig_def
        Let_def getProp_simps truthy_def orElse_def)

text \<open>
  C4, amended. The manifest always has a \<^verbatim>\<open>description\<close> and an \<^verbatim>\<open>author\<close> entry. An
  absent (or empty) description is replaced by "A new npm package". An absent author
  gives the empty author string, whatever the e-mail and the GitHub user name are; a
  present author is followed by the e-mail segment and by the GitHub segment, each only
  when that field is present. The \<^verbatim>\<open>repository\<close>, \<^verbatim>\<open>bugs\<close> and \<^verbatim>\<open>homepage\<close> entries are all
  there when the GitHub user name is present and all missing when it is absent.
\<close>

theorem manifest_optional_metadata:
  "getProp (generatePackageJson c) ''description''
     = Some (JString (if truthy (description c) then the (description c)
                      else ''A new npm package''))
   \<and> getProp (generatePackageJson c) ''author''
     = Some (JString
         (if truthy (author c)
          then the (author c)
               @ (if truthy (authorEmail c) then '' <'' @ the (authorEmail c) @ ''>'' else [])
               @ (if truthy (githubUsername c)
                  then '' (https://github.com/'' @ the (githubUsername c) @ '')'' else [])
          else []))
   \<and> map (getProp (generatePackageJson c)) [''repository'', ''bugs'', ''homepage'']
     = (if truthy (githubUsername c)
        then [Some (JObject [(''type'', JString ''git''),
                             (''url'', JString (''https://github.com/'' @ the (githubUsername c)
                                          @ ''/'' @ packageName c @ ''.git''))]),
              Some (JObject [(''url'', JString (''https://github.com/'' @ the (githubUsername c)
                                          @ ''/'' @ packageName c @ ''/issues''))]),
              Some (JString (''https://github.com/'' @ the (githubUsername c)
                       @ ''/'' @ packageName c @ ''#readme''))]
        else [None, None, None])"
proof -
  have ep: "getProp (foldl (\<lambda>obj (k, v). assign obj k v) pkg (generateEntryPoints c)) k
      = getProp pkg k" if "k \<notin> {''main'', ''module'', ''types'', ''exports''}" for pkg k
    using that
    by (cases "language c"; cases "moduleType c")
       (simp_all add: entryPoints_ts entryPoints_js_commonjs entryPoints_js_module getProp_simps)
  have d: "orElse (description c) ''A new npm package''
      = (if truthy (description c) then the (description c) else ''A new npm package'')"
    by (cases "description c") (simp_all add: orElse_def truthy_def)
  show ?thesis
    by (simp add: generatePackageJson_def authorField_def Let_def getProp_simps ep d)
qed

theorem manifest_optional_metadata_witness:
  "map (getProp (generatePackageJson
          (testConfig\<lparr>author := Some ''John Doe'', githubUsername := Some ''johndoe''\<rparr>)))
     [''description'', ''author'', ''homepage'']
   = [Some (JString ''A new npm package''),
      Some (JString ''John Doe (https://github.com/johndoe)''),
      Some (JString ''https://github.com/johndoe/test-package#readme'')]"
  using manifest_optional_metadata
          [of "testConfig\<lparr>author := Some ''John Doe'', githubUsername := Some ''johndoe''\<rparr>"]
  by (simp add: testConfig_def truthy_def)

text \<open>
  C2 fails on the code. With Vitest selected and CI declined, the scripts of the revised
  generator still hold a coverage script, although the coverage provider is only
  installed when CI is enabled. The generator of \<^verbatim>\<open>packageJson.ts\<close> never emits a coverage
  script, not even with CI enabled.
\<close>

theorem scripts_coverage_without_ci:
  "getProp (generateScripts_rev (testConfig\<lparr>setupCI := Some False\<rparr>)) ''test:coverage''
     = Some ''vitest run --coverage''
   \<and> getProp (generateScripts testConfig) ''test:coverage'' = None"
  by (simp add: generateScripts_rev_def generateScripts_def testConfig_def Let_def getProp_simps)

lemma scripts_rev_test_entries:
  "map (getProp (generateScripts_rev c)) [''test'', ''test:watch'', ''test:coverage'']
     = (case testRunner c of
          vitest \<Rightarrow> [Some ''vitest run'', Some ''vitest'', Some ''vitest run --coverage'']
        | jest \<Rightarrow> [Some ''jest'', Some ''jest --watch'', Some ''jest --coverage'']
        | none \<Rightarrow> [None, None, None])"
  by (cases "testRunner c")
     (simp_all add: generateScripts_rev_def Let_def getProp_simps)

lemma scripts_test_entries:
  "map (getProp (generateScripts c)) [''test'', ''test:watch'', ''test:coverage'']
     = (case testRunner c of
          vitest \<Rightarrow> [Some ''vitest run'', Some ''vitest'', None]
        | jest \<Rightarrow> [Some ''jest'', Some ''jest --watch'', None]
        | none \<Rightarrow> [None, None, None])"
  by (cases "testRunner c")
     (simp_all add: generateScripts_def Let_def getProp_simps)

section \<open>Properties of the workflow and file generators\<close>






lemma includesStr_trans:
  assumes "includesStr s t" and "includesStr t w"
  shows "includesStr s w"
proof -
  from assms obtain p q p' q' where "s = p @ t @ q" "t = p' @ w @ q'"
    unfolding includesStr_iff by blast
  then have "s = (p @ p') @ w @ (q' @ q)" by simp
  then show ?thesis unfolding includesStr_iff by blast
qed










text \<open>
  C9. Two configurations with the same package name get the same root type-declaration
  file, whatever their module formats: its two export lines always name
  \<^verbatim>\<open>./dist/index\<close>, and that text has no \<^verbatim>\<open>.mjs\<close> in it.
\<close>

theorem root_index_dts_ignores_module_format:
  assumes "packageName c = packageName c'"
  shows "generateRootIndexDts c = generateRootIndexDts c'
    \<and> generateRootIndexDts c
        = join nl [''/**'', '' * '' @ packageName c @ '' - Type Definitions'', '' *'',
                   '' * @license MIT'', '' */'', []] @ nl
          @ join nl [''export * from '' @ apos @ ''./dist/index'' @ apos @ '';'',
                     ''export { default } from '' @ apos @ ''./dist/index'' @ apos @ '';'', []]
    \<and> \<not> includesStr
          (join nl [''export * from '' @ apos @ ''./dist/index'' @ apos @ '';'',
                    ''export { default } from '' @ apos @ ''./dist/index'' @ apos @ '';'', []])
          ''.mjs''"
  using assms by (simp add: generateRootIndexDts_def nl_def apos_def)

theorem root_index_dts_ignores_module_format_witness:
  "generateRootIndexDts (testConfig\<lparr>moduleType := dual\<rparr>)
     = generateRootIndexDts (testConfig\<lparr>moduleType := commonjs\<rparr>)"
  using root_index_dts_ignores_module_format
          [of "testConfig\<lparr>moduleType := dual\<rparr>" "testConfig\<lparr>moduleType := commonjs\<rparr>"]
  by (simp add: testConfig_def)

section \<open>Properties of the README generator\<close>

lemma readme_includes_badges:
  assumes "includesStr (generateReadme_badges c) t"
  shows "includesStr (generateReadme c) t"
proof -
  let ?d = "orElse (description c) ''A new npm package created with forge-npm-pkg.''"
  have "includesStr (generateReadme_badges c @ ?d) t"
    using assms by (rule includesStr_append_left)
  then show ?thesis
    unfolding generateReadme_def Let_def
    by (rule includesStr_join [rotated]) simp
qed

text \<open>
  C10. Every README has the "Last Commit" badge with the user name \<open>oharu121\<close> in its
  address, whatever the configuration's GitHub user name is. When no GitHub user name is
  given the badge block is still there, with \<open><github-username>\<close> in the address of
  every badge that depends on the user name: the "GitHub Stars" badge, the "CI Status"
  badge (emitted when CI is set up) and the "Coverage" badge (emitted when coverage
  upload is enabled and a test runner is selected).
\<close>

theorem readme_last_commit_badge_hard_coded:
  "includesStr (generateReadme c)
     (''![Last Commit](https://img.shields.io/github/last-commit/oharu121/''
        @ (if packageName c = [] then ''<package-name>'' else packageName c) @ '')'')
   \<and> (\<not> truthy (githubUsername c) \<longrightarrow>
        includesStr (generateReadme c)
          (''![GitHub Stars](https://img.shields.io/github/stars/<github-username>/''
             @ (if packageName c = [] then ''<package-name>'' else packageName c)
             @ ''?style=social)''))
   \<and> (\<not> truthy (githubUsername c) \<and> enabled (setupCI c) \<longrightarrow>
        includesStr (generateReadme c)
          (''![CI Status](https://github.com/<github-username>/''
             @ (if packageName c = [] then ''<package-name>'' else packageName c)
             @ ''/actions/workflows/ci.yml/badge.svg)''))
   \<and> (\<not> truthy (githubUsername c) \<and> enabled (useCodecov c) \<and> testRunner c \<noteq> none \<longrightarrow>
        includesStr (generateReadme c)
          (''![Coverage](https://codecov.io/gh/<github-username>/''
             @ (if packageName c = [] then ''<package-name>'' else packageName c)
             @ ''/branch/main/graph/badge.svg)''))"
proof (intro conjI impI)
  show "includesStr (generateReadme c)
     (''![Last Commit](https://img.shields.io/github/last-commit/oharu121/''
        @ (if packageName c = [] then ''<package-name>'' else packageName c) @ '')'')"
    apply (rule readme_includes_badges)
    unfolding generateReadme_badges_def Let_def
    apply (rule includesStr_join [where x = "''![Last Commit](https://img.shields.io/github/last-commit/oharu121/''
        @ (if packageName c = [] then ''<package-name>'' else packageName c) @ '')''"])
     apply simp
    apply (rule includesStr_self)
    done
next
  assume "\<not> truthy (githubUsername c)"
  then have gh: "orElse (githubUsername c) ''<github-username>'' = ''<github-username>''"
    by (cases "githubUsername c") (simp_all add: orElse_def truthy_def)
  show "includesStr (generateReadme c)
          (''![GitHub Stars](https://img.shields.io/github/stars/<github-username>/''
             @ (if packageName c = [] then ''<package-name>'' else packageName c)
             @ ''?style=social)'')"
    apply (rule readme_includes_badges)
    unfolding generateReadme_badges_def Let_def gh
    apply (rule includesStr_join [where x = "''![GitHub Stars](https://img.shields.io/github/stars/<github-username>/''
             @ (if packageName c = [] then ''<package-name>'' else packageName c)
             @ ''?style=social)''"])
     apply simp
    apply (rule includesStr_self)
    done
next
  let ?pn = "if packageName c = [] then ''<package-name>'' else packageName c"
  let ?ci = "''![CI Status](https://github.com/'' @ ''<github-username>'' @ ''/''
               @ ?pn @ ''/actions/workflows/ci.yml/badge.svg)''"
  let ?cov = "join nl [''![Coverage](https://codecov.io/gh/'' @ ''<github-username>'' @ ''/''
                         @ ?pn @ ''/branch/main/graph/badge.svg)'', []]"
  assume a: "\<not> truthy (githubUsername c) \<and> enabled (setupCI c)"
  then have gh: "orElse (githubUsername c) ''<github-username>'' = ''<github-username>''"
    by (cases "githubUsername c") (simp_all add: orElse_def truthy_def)
  from a have ci: "enabled (setupCI c)" by simp
  have el: "includesStr
      ((if enabled (useCodecov c) \<and> testRunner c \<noteq> none then ?cov else [])
       @ (if enabled (setupCI c) then ?ci else [])) ?ci"
    unfolding if_P [OF ci] by (rule includesStr_append_right) (rule includesStr_self)
  have "includesStr (generateReadme c) ?ci"
    apply (rule readme_includes_badges)
    unfolding generateReadme_badges_def Let_def gh
    apply (rule includesStr_join [OF _ el])
    apply simp
    done
  then show "includesStr (generateReadme c)
          (''![CI Status](https://github.com/<github-username>/''
             @ (if packageName c = [] then ''<package-name>'' else packageName c)
             @ ''/actions/workflows/ci.yml/badge.svg)'')"
    by simp
next
  let ?pn = "if packageName c = [] then ''<package-name>'' else packageName c"
  let ?ci = "''![CI Status](https://github.com/'' @ ''<github-username>'' @ ''/''
               @ ?pn @ ''/actions/workflows/ci.yml/badge.svg)''"
  let ?line = "''![Coverage](https://codecov.io/gh/'' @ ''<github-username>'' @ ''/''
                 @ ?pn @ ''/branch/main/graph/badge.svg)''"
  assume a: "\<not> truthy (githubUsername c) \<and> enabled (useCodecov c) \<and> testRunner c \<noteq> none"
  then have gh: "orElse (githubUsername c) ''<github-username>'' = ''<github-username>''"
    by (cases "githubUsername c") (simp_all add: orElse_def truthy_def)
  from a have cv: "enabled (useCodecov c) \<and> testRunner c \<noteq> none" by simp
  have "includesStr (join nl [?line, []]) ?line"
    by (rule includesStr_join [where x = ?line]) (simp_all add: includesStr_self)
  then have el: "includesStr
      ((if enabled (useCodecov c) \<and> testRunner c \<noteq> none then join nl [?line, []] else [])
       @ (if enabled (setupCI c) then ?ci else [])) ?line"
    unfolding if_P [OF cv] by (rule includesStr_append_left)
  have "includesStr (generateReadme c) ?line"
    apply (rule readme_includes_badges)
    unfolding generateReadme_badges_def Let_def gh
    apply (rule includesStr_join [OF _ el])
    apply simp
    done
  then show "includesStr (generateReadme c)
          (''![Coverage](https://codecov.io/gh/<github-username>/''
             @ (if packageName c = [] then ''<package-name>'' else packageName c)
             @ ''/branch/main/graph/badge.svg)'')"
    by simp
qed

theorem readme_last_commit_badge_hard_coded_witness:
  "includesStr (generateReadme (testConfig\<lparr>githubUsername := Some ''johndoe''\<rparr>))
     ''![Last Commit](https://img.shields.io/github/last-commit/oharu121/test-package)''
   \<and> includesStr (generateReadme testConfig)
     ''![GitHub Stars](https://img.shields.io/github/stars/<github-username>/test-package?style=social)''
   \<and> includesStr (generateReadme testConfig)
     ''![CI Status](https://github.com/<github-username>/test-package/actions/workflows/ci.yml/badge.svg)''
   \<and> includesStr (generateReadme (testConfig\<lparr>useCodecov := Some True\<rparr>))
     ''![Coverage](https://codecov.io/gh/<github-username>/test-package/branch/main/graph/badge.svg)''"
  using readme_last_commit_badge_hard_coded [of "testConfig\<lparr>githubUsername := Some ''johndoe''\<rparr>"]
        readme_last_commit_badge_hard_coded [of testConfig]
        readme_last_commit_badge_hard_coded [of "testConfig\<lparr>useCodecov := Some True\<rparr>"]
  by (simp add: testConfig_def truthy_def enabled_def)

section \<open>Properties of the package-name validator\<close>

lemma conc_Cons_iff:
  "c # s \<in> conc A B \<longleftrightarrow>
     ([] \<in> A \<and> c # s \<in> B) \<or> (\<exists>u v. s = u @ v \<and> c # u \<in> A \<and> v \<in> B)"
proof
  assume "c # s \<in> conc A B"
  then obtain u v where uv: "c # s = u @ v" "u \<in> A" "v \<in> B"
    by (auto simp: conc_def)
  show "([] \<in> A \<and> c # s \<in> B) \<or> (\<exists>u v. s = u @ v \<and> c # u \<in> A \<and> v \<in> B)"
  proof (cases u)
    case Nil
    with uv show ?thesis by simp
  next
    case (Cons d u')
    with uv have "s = u' @ v" "c # u' \<in> A" by auto
    with uv(3) show ?thesis by blast
  qed
next
  assume "([] \<in> A \<and> c # s \<in> B) \<or> (\<exists>u v. s = u @ v \<and> c # u \<in> A \<and> v \<in> B)"
  then show "c # s \<in> conc A B"
  proof
    assume "[] \<in> A \<and> c # s \<in> B"
    then have "[] @ (c # s) \<in> conc A B" unfolding conc_def by blast
    then show ?thesis by simp
  next
    assume "\<exists>u v. s = u @ v \<and> c # u \<in> A \<and> v \<in> B"
    then obtain u v where "s = u @ v" "c # u \<in> A" "v \<in> B" by blast
    then have "(c # u) @ v \<in> conc A B" unfolding conc_def by blast
    with \<open>s = u @ v\<close> show ?thesis by simp
  qed
qed

lemma conc_Nil_iff: "[] \<in> conc A B \<longleftrightarrow> [] \<in> A \<and> [] \<in> B"
  by (auto simp: conc_def)

lemma star_Cons_iff:
  "c # s \<in> star A \<longleftrightarrow> (\<exists>u v. s = u @ v \<and> c # u \<in> A \<and> v \<in> star A)"
proof
  assume "c # s \<in> star A"
  then show "\<exists>u v. s = u @ v \<and> c # u \<in> A \<and> v \<in> star A"
  proof (induction "c # s" rule: star.induct)
    case (star_app u v)
    show ?case
    proof (cases u)
      case Nil
      with star_app show ?thesis by simp
    next
      case (Cons d u')
      with star_app.hyps have "s = u' @ v" "c # u' \<in> A" by auto
      with star_app.hyps(2) show ?thesis by blast
    qed
  qed
next
  assume "\<exists>u v. s = u @ v \<and> c # u \<in> A \<and> v \<in> star A"
  then obtain u v where "s = u @ v" "c # u \<in> A" "v \<in> star A" by blast
  then have "(c # u) @ v \<in> star A" by (blast intro: star.star_app)
  with \<open>s = u @ v\<close> show "c # s \<in> star A" by simp
qed

lemma nullable_lang: "nullable r \<longleftrightarrow> [] \<in> lang r"
  by (induction r) (auto simp: conc_Nil_iff intro: star.star_Nil)

lemma mem_conc: "w \<in> conc A B \<longleftrightarrow> (\<exists>u v. w = u @ v \<and> u \<in> A \<and> v \<in> B)"
  by (auto simp: conc_def)

lemma conc_assoc: "conc A (conc B C) = conc (conc A B) C"
proof (rule set_eqI)
  fix w
  have "w \<in> conc A (conc B C) \<longleftrightarrow> (\<exists>u v x. w = u @ v @ x \<and> u \<in> A \<and> v \<in> B \<and> x \<in> C)"
    unfolding mem_conc by blast
  also have "\<dots> \<longleftrightarrow> (\<exists>u v x. w = (u @ v) @ x \<and> u \<in> A \<and> v \<in> B \<and> x \<in> C)"
    by simp
  also have "\<dots> \<longleftrightarrow> w \<in> conc (conc A B) C"
    unfolding mem_conc by blast
  finally show "w \<in> conc A (conc B C) \<longleftrightarrow> w \<in> conc (conc A B) C" .
qed

lemma after_lang: "s \<in> lang (after c r) \<longleftrightarrow> c # s \<in> lang r"
proof (induction r arbitrary: s)
  case (Seq r1 r2)
  have left: "s \<in> conc (lang (after c r1)) (lang r2)
      \<longleftrightarrow> (\<exists>u v. s = u @ v \<and> c # u \<in> lang r1 \<and> v \<in> lang r2)"
    unfolding mem_conc by (simp add: Seq.IH(1))
  show ?case
  proof (cases "nullable r1")
    case True
    then have "[] \<in> lang r1" by (simp add: nullable_lang)
    with True show ?thesis
      by (simp add: left Seq.IH(2) conc_Cons_iff) blast
  next
    case False
    then have "[] \<notin> lang r1" by (simp add: nullable_lang)
    with False show ?thesis
      by (simp add: left conc_Cons_iff)
  qed
next
  case (Star r)
  have "s \<in> conc (lang (after c r)) (star (lang r))
      \<longleftrightarrow> (\<exists>u v. s = u @ v \<and> c # u \<in> lang r \<and> v \<in> star (lang r))"
    unfolding mem_conc by (simp add: Star.IH)
  then show ?case by (simp add: star_Cons_iff)
qed auto

lemma test_lang: "test r s \<longleftrightarrow> s \<in> lang r"
  by (induction s arbitrary: r) (simp_all add: nullable_lang after_lang)

lemma star_class: "s \<in> star {[c] |c. P c} \<longleftrightarrow> list_all P s"
proof (induction s)
  case Nil
  show ?case by (simp add: star.star_Nil)
next
  case (Cons c s)
  then show ?case by (auto simp: star_Cons_iff)
qed

lemma lang_part: "s \<in> lang (Seq firstClass (Star restClass)) \<longleftrightarrow> namePart s"
proof (cases s)
  case Nil
  then show ?thesis by (simp add: conc_Nil_iff firstClass_def)
next
  case (Cons c cs)
  have "cs \<in> star {[c] |c. inClass c [(CHR ''a'', CHR ''z''), (CHR ''0'', CHR ''9''),
                      (CHR ''-'', CHR ''-''), (CHR ''.'', CHR ''.''),
                      (CHR ''_'', CHR ''_''), (CHR ''~'', CHR ''~'')]} \<longleftrightarrow> list_all restChar cs"
    unfolding restChar_def by (rule star_class)
  with Cons show ?thesis
    by (auto simp: conc_Cons_iff firstClass_def restClass_def firstChar_def)
qed

lemma test_scopedPackagePattern:
  "test scopedPackagePattern s \<longleftrightarrow>
     namePart s \<or> (\<exists>scope name. s = CHR ''@'' # scope @ CHR ''/'' # name
                       \<and> namePart scope \<and> namePart name)"
proof -
  let ?P = "Seq firstClass (Star restClass)"
  have scoped: "t \<in> lang (Seq (Lit CHR ''@'') (Seq firstClass (Seq (Star restClass) (Lit CHR ''/''))))
      \<longleftrightarrow> (\<exists>scope. t = CHR ''@'' # scope @ ''/'' \<and> namePart scope)" for t
  proof -
    have a: "lang (Seq firstClass (Seq (Star restClass) (Lit CHR ''/'')))
        = conc (lang ?P) {''/''}"
      by (simp add: conc_assoc)
    have "t \<in> lang (Seq (Lit CHR ''@'') (Seq firstClass (Seq (Star restClass) (Lit CHR ''/''))))
        \<longleftrightarrow> (\<exists>w. t = CHR ''@'' # w \<and> w \<in> conc (lang ?P) {''/''})"
      unfolding lang.simps(5)[of "Lit CHR ''@''"] a by (auto simp: conc_def)
    also have "\<dots> \<longleftrightarrow> (\<exists>scope. t = CHR ''@'' # scope @ ''/'' \<and> scope \<in> lang ?P)"
      by (auto simp: conc_def)
    finally show ?thesis by (simp only: lang_part)
  qed
  have "s \<in> lang scopedPackagePattern \<longleftrightarrow>
      (\<exists>u v. s = u @ v \<and> (u = [] \<or> (\<exists>scope. u = CHR ''@'' # scope @ ''/'' \<and> namePart scope)) \<and> namePart v)"
    unfolding scopedPackagePattern_def lang.simps(5)[of "Opt _"] lang.simps(7) conc_def
    using scoped lang_part by auto
  also have "\<dots> \<longleftrightarrow> namePart s \<or> (\<exists>scope name. s = CHR ''@'' # scope @ CHR ''/'' # name
                       \<and> namePart scope \<and> namePart name)"
  proof
    assume "\<exists>u v. s = u @ v \<and> (u = [] \<or> (\<exists>scope. u = CHR ''@'' # scope @ ''/'' \<and> namePart scope)) \<and> namePart v"
    then show "namePart s \<or> (\<exists>scope name. s = CHR ''@'' # scope @ CHR ''/'' # name
                       \<and> namePart scope \<and> namePart name)"
      by auto
  next
    assume "namePart s \<or> (\<exists>scope name. s = CHR ''@'' # scope @ CHR ''/'' # name
                       \<and> namePart scope \<and> namePart name)"
    then show "\<exists>u v. s = u @ v \<and> (u = [] \<or> (\<exists>scope. u = CHR ''@'' # scope @ ''/'' \<and> namePart scope)) \<and> namePart v"
    proof
      assume "namePart s"
      then have "s = [] @ s \<and> namePart s" by simp
      then show ?thesis by blast
    next
      assume "\<exists>scope name. s = CHR ''@'' # scope @ CHR ''/'' # name \<and> namePart scope \<and> namePart name"
      then obtain scope name where
        "s = CHR ''@'' # scope @ CHR ''/'' # name" "namePart scope" "namePart name" by blast
      then have "s = (CHR ''@'' # scope @ ''/'') @ name" by simp
      with \<open>namePart scope\<close> \<open>namePart name\<close> show ?thesis by blast
    qed
  qed
  finally show ?thesis by (simp add: test_lang)
qed

lemma firstChar_restChar: "firstChar c \<Longrightarrow> restChar c"
  by (auto simp: firstChar_def restChar_def inClass_def)

lemma namePart_chars: "namePart s \<Longrightarrow> list_all restChar s"
  by (cases s) (simp_all add: firstChar_restChar)

lemma upperCase_not_allowed: "upperCase c \<Longrightarrow> \<not> allowedSymbol c"
  by (auto simp: upperCase_def allowedSymbol_def restChar_def inClass_def inRange_def)

lemma pattern_chars:
  assumes "test scopedPackagePattern s"
  shows "list_all allowedSymbol s"
proof -
  have part: "list_all allowedSymbol t" if "namePart t" for t
    using namePart_chars [OF that] by (simp add: list_all_iff allowedSymbol_def)
  from assms consider "namePart s"
    | scope name where "s = CHR ''@'' # scope @ CHR ''/'' # name" "namePart scope" "namePart name"
    unfolding test_scopedPackagePattern by blast
  then show ?thesis
  proof cases
    case 1
    then show ?thesis by (rule part)
  next
    case 2
    with part [of scope] part [of name] show ?thesis
      by (simp add: allowedSymbol_def)
  qed
qed

lemma reserved_not_scoped: "CHR ''@'' # s \<notin> set reserved"
  by (simp add: reserved_def)

lemma reserved_short: "s \<in> set reserved \<Longrightarrow> length s \<le> 12"
  by (auto simp: reserved_def)

lemma validatePackageName_accepts:
  "validatePackageName name = None \<longleftrightarrow>
     name \<noteq> [] \<and> length name \<le> 214 \<and> name \<notin> set reserved
     \<and> (namePart name
        \<or> (\<exists>scope nm. name = CHR ''@'' # scope @ CHR ''/'' # nm \<and> namePart scope \<and> namePart nm))"
  by (auto simp: validatePackageName_def NPM_NAME_MAX_LENGTH_def test_scopedPackagePattern)

text \<open>
  C7, as stated, fails: \<open>.mypackage\<close> is made of lowercase letters and a dot and is
  rejected, as the repository's test "should reject names starting with dot" expects.
\<close>

theorem validator_leading_dot_counterexample:
  "set ''.mypackage'' \<subseteq> set ''abcdefghijklmnopqrstuvwxyz0123456789-_.''
   \<and> validatePackageName ''.mypackage'' \<noteq> None"
proof -
  have "\<not> namePart ''.mypackage''"
    by (simp add: firstChar_def inClass_def inRange_def)
  then have "validatePackageName ''.mypackage'' \<noteq> None"
    unfolding validatePackageName_accepts by simp
  then show ?thesis by simp
qed

text \<open>
  C7, amended. The validator rejects the empty string, every string longer than 214
  characters, every name with an uppercase letter, every name with a character outside
  \<open>a-z\<close>, \<open>0-9\<close>, \<open>-\<close>, \<open>.\<close>, \<open>_\<close>, \<open>~\<close>, \<open>@\<close> and \<open>/\<close>, and the two reserved names. It accepts
  every name of at most 214 characters that is not reserved and is a name part, that is
  a non-empty string over \<open>a-z\<close>, \<open>0-9\<close>, \<open>-\<close>, \<open>.\<close>, \<open>_\<close>, \<open>~\<close> whose first character is
  neither a dot nor an underscore; it accepts \<open>@scope/name\<close> of at most 214 characters
  when scope and name are both name parts; and it accepts a name of exactly 214
  characters.
\<close>

theorem validator_rejects_and_accepts:
  "validatePackageName [] = Some ''Package name is required''
   \<and> (214 < length name \<longrightarrow>
        validatePackageName name = Some ''Package name must be 214 characters or less'')
   \<and> ((\<exists>c \<in> set name. upperCase c) \<longrightarrow> validatePackageName name \<noteq> None)
   \<and> ((\<exists>c \<in> set name. \<not> allowedSymbol c) \<longrightarrow> validatePackageName name \<noteq> None)
   \<and> validatePackageName ''node_modules'' \<noteq> None
   \<and> validatePackageName ''favicon.ico'' \<noteq> None
   \<and> (namePart name \<and> length name \<le> 214 \<and> name \<notin> set reserved \<longrightarrow>
        validatePackageName name = None)
   \<and> (namePart scope \<and> namePart name \<and> length scope + length name + 2 \<le> 214 \<longrightarrow>
        validatePackageName (CHR ''@'' # scope @ CHR ''/'' # name) = None)
   \<and> length (replicate 214 CHR ''a'') = 214
   \<and> validatePackageName (replicate 214 CHR ''a'') = None"
proof (intro conjI impI)
  show "validatePackageName [] = Some ''Package name is required''"
    by (simp add: validatePackageName_def)
next
  assume "214 < length name"
  then show "validatePackageName name = Some ''Package name must be 214 characters or less''"
    by (auto simp: validatePackageName_def NPM_NAME_MAX_LENGTH_def)
next
  assume "\<exists>c \<in> set name. \<not> allowedSymbol c"
  then have "\<not> list_all allowedSymbol name" by (simp add: list_all_iff)
  then have "\<not> test scopedPackagePattern name" using pattern_chars by blast
  then show "validatePackageName name \<noteq> None"
    by (simp add: validatePackageName_def)
next
  assume "\<exists>c \<in> set name. upperCase c"
  then have "\<not> list_all allowedSymbol name"
    using upperCase_not_allowed by (auto simp: list_all_iff)
  then have "\<not> test scopedPackagePattern name" using pattern_chars by blast
  then show "validatePackageName name \<noteq> None"
    by (simp add: validatePackageName_def)
next
  show "validatePackageName ''node_modules'' \<noteq> None"
    unfolding validatePackageName_accepts by (simp add: reserved_def)
next
  show "validatePackageName ''favicon.ico'' \<noteq> None"
    unfolding validatePackageName_accepts by (simp add: reserved_def)
next
  assume "namePart name \<and> length name \<le> 214 \<and> name \<notin> set reserved"
  moreover from this have "name \<noteq> []" by auto
  ultimately show "validatePackageName name = None"
    unfolding validatePackageName_accepts by simp
next
  assume a: "namePart scope \<and> namePart name \<and> length scope + length name + 2 \<le> 214"
  then have "\<exists>sc nm. CHR ''@'' # scope @ CHR ''/'' # name = CHR ''@'' # sc @ CHR ''/'' # nm
      \<and> namePart sc \<and> namePart nm"
    by blast
  with a show "validatePackageName (CHR ''@'' # scope @ CHR ''/'' # name) = None"
    unfolding validatePackageName_accepts using reserved_not_scoped by simp
next
  show "length (replicate 214 CHR ''a'') = 214" by simp
next
  have r: "replicate 214 CHR ''a'' = CHR ''a'' # replicate 213 CHR ''a''"
    by (simp add: replicate_Suc [symmetric] del: replicate_Suc)
  have "namePart (replicate 214 CHR ''a'')"
    unfolding r
    by (simp add: firstChar_def restChar_def inClass_def inRange_def list_all_iff)
  moreover have "replicate 214 CHR ''a'' \<notin> set reserved"
    using reserved_short [of "replicate 214 CHR ''a''"] by auto
  moreover have "replicate 214 CHR ''a'' \<noteq> []" by simp
  ultimately show "validatePackageName (replicate 214 CHR ''a'') = None"
    unfolding validatePackageName_accepts by simp
qed

theorem validator_rejects_and_accepts_witness:
  "validatePackageName (replicate 215 CHR ''a'')
     = Some ''Package name must be 214 characters or less''
   \<and> validatePackageName ''MyPackage'' \<noteq> None
   \<and> validatePackageName ''my-package!'' \<noteq> None
   \<and> validatePackageName ''my.package'' = None
   \<and> validatePackageName ''@my-org/my-package'' = None"
proof -
  have u: "\<exists>c \<in> set ''MyPackage''. upperCase c"
    by (simp add: upperCase_def inRange_def)
  have d: "\<exists>c \<in> set ''my-package!''. \<not> allowedSymbol c"
    by (simp add: allowedSymbol_def restChar_def inClass_def inRange_def)
  have p: "namePart ''my.package'' \<and> length ''my.package'' \<le> 214
      \<and> ''my.package'' \<notin> set reserved"
    by (simp add: firstChar_def restChar_def inClass_def inRange_def reserved_def)
  have s: "namePart ''my-org'' \<and> namePart ''my-package''
      \<and> length ''my-org'' + length ''my-package'' + 2 \<le> 214"
    by (simp add: firstChar_def restChar_def inClass_def inRange_def)
  have l: "214 < length (replicate 215 CHR ''a'')" by simp
  have "validatePackageName (replicate 215 CHR ''a'')
      = Some ''Package name must be 214 characters or less''"
    using validator_rejects_and_accepts [of "replicate 215 CHR ''a''" "[]"] l by blast
  moreover have "validatePackageName ''MyPackage'' \<noteq> None"
    using validator_rejects_and_accepts [of "''MyPackage''" "[]"] u by blast
  moreover have "validatePackageName ''my-package!'' \<noteq> None"
    using validator_rejects_and_accepts [of "''my-package!''" "[]"] d by blast
  moreover have "validatePackageName ''my.package'' = None"
    using validator_rejects_and_accepts [of "''my.package''" "[]"] p by blast
  moreover have "validatePackageName (CHR ''@'' # ''my-org'' @ CHR ''/'' # ''my-package'') = None"
    using validator_rejects_and_accepts [of "''my-package''" "''my-org''"] s by blast
  ultimately show ?thesis by simp
qed

section \<open>Properties of the command-line action\<close>

lemmas flow_defs = andThen_def handleCancel_def continue_def processExit_def withDefault_def
  fsOp_def tryExec_def

lemmas resolve_defs = resolveConfiguration_def resolvePackageName_def checkTargetDir_def
  resolveChoices_def resolveMetadata_def askAuthorFields_def readGitConfig_def
  detectPackageManager_def truthy_def pathJoin_def orUndefined_def orUndefinedOpt_def orElse_def


lemmas sample_defs = noFlags_def sampleUser_def emptyEnvironment_def startLog_def

lemma andThen_Inl: "m l = (Inl code, l') \<Longrightarrow> andThen m f l = (Inl code, l')"
  by (simp add: andThen_def)

lemma andThen_Inr: "m l = (Inr v, l') \<Longrightarrow> andThen m f l = f v l'"
  by (simp add: andThen_def)

lemma flow_cases:
  obtains code l' where "m l = (Inl code, l')" | v l' where "m l = (Inr v, l')"
  by (cases "m l"; cases "fst (m l)") auto


subsection \<open>Pieces that only ask\<close>















subsection \<open>Pieces that write\<close>












subsection \<open>The order of asking and writing\<close>












subsection \<open>The resolved configuration, cancellation and the existing target\<close>

lemma andThen_InrE:
  assumes "andThen m f l = (Inr v, l')"
  obtains w l1 where "m l = (Inr w, l1)" and "f w l1 = (Inr v, l')"
  using assms by (cases rule: flow_cases [of m l]) (auto simp: andThen_Inl andThen_Inr)

lemma continue_InrE:
  assumes "continue w l = (Inr v, l')"
  obtains "v = w"
  using assms by (simp add: continue_def)

lemma resolveChoices_codecov:
  assumes "resolveChoices opts u l = (Inr c, l')"
  shows "chosenCodecov c \<longrightarrow> chosenTestRunner c \<noteq> none \<and> chosenCI c"
  using assms
  by (auto simp: resolveChoices_def andThen_def handleCancel_def continue_def
      split: if_splits response.splits)

text \<open>
  C6. Whatever the flags, the positional argument, the user's answers and the
  surroundings are, a configuration the resolver produces has coverage upload switched
  off whenever no test runner is selected or CI is not set up.
\<close>

theorem resolved_codecov_needs_runner_and_ci:
  assumes "resolveConfiguration opts arg u env l = (Inr (config, targetDir, save), l')"
  shows "(testRunner config = none \<or> setupCI config = Some False \<longrightarrow>
            useCodecov config = Some False)
    \<and> (useCodecov config = Some True \<longrightarrow>
            testRunner config \<noteq> none \<and> setupCI config = Some True)"
proof -
  from assms obtain c l1 l2 where choices: "resolveChoices opts u l1 = (Inr c, l2)"
    and config: "testRunner config = chosenTestRunner c" "setupCI config = Some (chosenCI c)"
      "useCodecov config = Some (chosenCodecov c)"
    unfolding resolveConfiguration_def Let_def
    by (elim andThen_InrE continue_InrE) auto
  from resolveChoices_codecov [OF choices] config show ?thesis by auto
qed

theorem resolved_codecov_needs_runner_and_ci_witness:
  "(\<exists>config targetDir save l'.
      resolveConfiguration noFlags None (sampleUser\<lparr>replyTestRunner := Answer none\<rparr>)
        emptyEnvironment startLog = (Inr (config, targetDir, save), l')
      \<and> testRunner config = none \<and> useCodecov config = Some False)
   \<and> (\<exists>config targetDir save l'.
      resolveConfiguration noFlags None sampleUser emptyEnvironment startLog
        = (Inr (config, targetDir, save), l')
      \<and> useCodecov config = Some True \<and> testRunner config = vitest
      \<and> setupCI config = Some True)"
proof -
  let ?u = "sampleUser\<lparr>replyTestRunner := Answer none\<rparr>"
  let ?r = "resolveConfiguration noFlags None ?u emptyEnvironment startLog"
  let ?r2 = "resolveConfiguration noFlags None sampleUser emptyEnvironment startLog"
  have "fst ?r =
      Inr (\<lparr>packageName = ''sample-lib'', language = typescript, moduleType = dual,
            testRunner = none, useLinting = True, initGit = False,
            setupCI = Some True, setupCD = Some False, useCodecov = Some False,
            useDependabot = Some False, packageManager = Some npm, description = None,
            author = Some ''John Doe'', authorEmail = None, githubUsername = None\<rparr>,
           ''/home/user/sample-lib'', False)"
    by (simp add: resolve_defs flow_defs sample_defs Let_def)
  then obtain config targetDir save l' where
    r: "?r = (Inr (config, targetDir, save), l')" and t: "testRunner config = none"
    by (cases ?r) auto
  from resolved_codecov_needs_runner_and_ci [OF r] t
  have "useCodecov config = Some False" by blast
  with r t have first: "\<exists>config targetDir save l'.
      ?r = (Inr (config, targetDir, save), l')
      \<and> testRunner config = none \<and> useCodecov config = Some False"
    by blast
  have "fst ?r2 =
      Inr (\<lparr>packageName = ''sample-lib'', language = typescript, moduleType = dual,
            testRunner = vitest, useLinting = True, initGit = False,
            setupCI = Some True, setupCD = Some False, useCodecov = Some True,
            useDependabot = Some False, packageManager = Some npm, description = None,
            author = Some ''John Doe'', authorEmail = None, githubUsername = None\<rparr>,
           ''/home/user/sample-lib'', False)"
    by (simp add: resolve_defs flow_defs sample_defs Let_def)
  then obtain config2 targetDir2 save2 l2 where
    r2: "?r2 = (Inr (config2, targetDir2, save2), l2)"
    and u2: "useCodecov config2 = Some True" and t2: "testRunner config2 = vitest"
    by (cases ?r2) auto
  from resolved_codecov_needs_runner_and_ci [OF r2] u2
  have "setupCI config2 = Some True" by blast
  with r2 u2 t2 have "\<exists>config targetDir save l'.
      ?r2 = (Inr (config, targetDir, save), l')
      \<and> useCodecov config = Some True \<and> testRunner config = vitest
      \<and> setupCI config = Some True"
    by blast
  with first show ?thesis by blast
qed




end
